theory Spec2Isabelle
  imports Main "HOL-Library.Sublist"
begin

section \<open>Strings of the Go standard library\<close>

text \<open>
  A Go \<open>string\<close> is a sequence of bytes; it is modelled as \<open>string\<close> (a list of
  \<open>char\<close>, one \<open>char\<close> per byte). The functions of package \<open>strings\<close> that the updater
  calls are written out here with their Go names.

  The functions that look at bytes only (\<open>HasPrefix\<close>, \<open>HasSuffix\<close>, \<open>TrimPrefix\<close>,
  \<open>Contains\<close>, \<open>Split\<close>, \<open>Join\<close>) are those of Go on every string. The functions that
  know letters and white space (\<open>ToLower\<close>, \<open>EqualFold\<close>, \<open>TrimSpace\<close>, \<open>Fields\<close>) are
  those of Go on strings of ASCII bytes only: on other strings Go decodes UTF-8 and
  uses the letters and spaces of Unicode. Every statement below that is made for all
  strings and goes through one of these four functions carries the hypothesis
  \<open>isASCII\<close> for the strings concerned.
\<close>

definition isASCII :: "string \<Rightarrow> bool" where
  "isASCII s = list_all (\<lambda>c. \<not> digit7 c) s"

definition HasPrefix :: "string \<Rightarrow> string \<Rightarrow> bool" where
  "HasPrefix s p = (take (length p) s = p)"

definition HasSuffix :: "string \<Rightarrow> string \<Rightarrow> bool" where
  "HasSuffix s p = (length p \<le> length s \<and> drop (length s - length p) s = p)"

text \<open>\<open>strings.TrimPrefix\<close>: \<open>s\<close> without the leading \<open>p\<close>, or \<open>s\<close> itself.\<close>

definition TrimPrefix :: "string \<Rightarrow> string \<Rightarrow> string" where
  "TrimPrefix s p = (if HasPrefix s p then drop (length p) s else s)"

text \<open>\<open>strings.ToLower\<close> on ASCII strings: the letters \<open>A\<close> to \<open>Z\<close> go to \<open>a\<close> to \<open>z\<close>, every
  other byte is kept.\<close>

definition toLowerByte :: "char \<Rightarrow> char" where
  "toLowerByte c =
     (case map_of (zip ''ABCDEFGHIJKLMNOPQRSTUVWXYZ'' ''abcdefghijklmnopqrstuvwxyz'') c of
        Some l \<Rightarrow> l
      | None \<Rightarrow> c)"

definition ToLower :: "string \<Rightarrow> string" where
  "ToLower s = map toLowerByte s"

text \<open>\<open>strings.EqualFold\<close> on ASCII strings: equality that ignores the case of letters.\<close>

definition EqualFold :: "string \<Rightarrow> string \<Rightarrow> bool" where
  "EqualFold s t = (ToLower s = ToLower t)"

text \<open>\<open>strings.Contains\<close>: \<open>sub\<close> occurs in \<open>s\<close> at some position.\<close>

fun Contains :: "string \<Rightarrow> string \<Rightarrow> bool" where
  "Contains [] sub = (sub = [])"
| "Contains (c # cs) sub = (HasPrefix (c # cs) sub \<or> Contains cs sub)"

text \<open>The white space of ASCII: tab, line feed, vertical tab, form feed, carriage
  return, space.\<close>

definition isSpace :: "char \<Rightarrow> bool" where
  "isSpace c = (c \<in> set [CHR 0x09, CHR 0x0A, CHR 0x0B, CHR 0x0C, CHR 0x0D, CHR '' ''])"

definition TrimSpace :: "string \<Rightarrow> string" where
  "TrimSpace s = rev (dropWhile isSpace (rev (dropWhile isSpace s)))"

text \<open>
  \<open>strings.Fields\<close>: the maximal runs of bytes that are not white space, in order.
  \<open>cur\<close> is the field being read.
\<close>

fun fieldsFrom :: "string \<Rightarrow> string \<Rightarrow> string list" where
  "fieldsFrom cur [] = (if cur = [] then [] else [cur])"
| "fieldsFrom cur (c # cs) =
     (if isSpace c then (if cur = [] then fieldsFrom [] cs else cur # fieldsFrom [] cs)
      else fieldsFrom (cur @ [c]) cs)"

definition Fields :: "string \<Rightarrow> string list" where
  "Fields s = fieldsFrom [] s"

text \<open>
  \<open>strings.Split(s, sep)\<close> for a separator of one byte: the pieces between the
  separators, always at least one piece.
\<close>

fun splitOn :: "char \<Rightarrow> string \<Rightarrow> string list" where
  "splitOn sep [] = [[]]"
| "splitOn sep (c # cs) =
     (if c = sep then [] # splitOn sep cs
      else (case splitOn sep cs of
              p # ps \<Rightarrow> (c # p) # ps
            | [] \<Rightarrow> [[c]]))"

text \<open>\<open>strings.Join(elems, sep)\<close>.\<close>

fun JoinStrings :: "string list \<Rightarrow> string \<Rightarrow> string" where
  "JoinStrings [] sep = []"
| "JoinStrings [x] sep = x"
| "JoinStrings (x # y # ys) sep = x @ sep @ JoinStrings (y # ys) sep"

abbreviation newline :: char where
  "newline \<equiv> CHR 0x0A"

section \<open>Paths of package path/filepath\<close>

text \<open>
  The path functions follow the slash-separated rules of \<open>path/filepath\<close> (separator
  \<open>/\<close>, as on the systems where the repository's tests run). Under the Windows
  rules the separator is the backslash and a path may start with a volume name;
  volume names are not modelled.

  \<open>filepath.Clean\<close> works on the elements between separators: empty elements and
  \<open>.\<close> are dropped, \<open>..\<close> removes the element before it when that is not \<open>..\<close>, is dropped
  at the root of a rooted path, and is kept at the start of a relative one.
  \<open>cleanStep\<close> is one step of this on a stack of elements (last element first).
\<close>

definition PathSeparator :: char where
  "PathSeparator = CHR ''/''"

fun cleanStep :: "bool \<Rightarrow> string list \<Rightarrow> string \<Rightarrow> string list" where
  "cleanStep rooted st e =
     (if e = [] \<or> e = ''.'' then st
      else if e = ''..'' then
        (case st of
           [] \<Rightarrow> if rooted then [] else [e]
         | t # ts \<Rightarrow> if t = ''..'' then e # st else ts)
      else e # st)"

definition isRooted :: "string \<Rightarrow> bool" where
  "isRooted path = HasPrefix path [PathSeparator]"

definition pathElems :: "string \<Rightarrow> string list" where
  "pathElems path = rev (foldl (cleanStep (isRooted path)) [] (splitOn PathSeparator path))"

definition Clean :: "string \<Rightarrow> string" where
  "Clean path =
     (let out = JoinStrings (pathElems path) [PathSeparator]
      in if isRooted path then PathSeparator # out
         else if out = [] then ''.''
         else out)"

text \<open>
  \<open>filepath.Join\<close>: leading empty elements are ignored, the rest is joined with the
  separator and cleaned; the result is empty when every element is empty.
\<close>

definition filepathJoin :: "string list \<Rightarrow> string" where
  "filepathJoin elems =
     (case dropWhile (\<lambda>e. e = []) elems of
        [] \<Rightarrow> []
      | es \<Rightarrow> Clean (JoinStrings es [PathSeparator]))"

text \<open>\<open>filepath.Dir\<close>: the path up to its last separator, cleaned.\<close>

definition Dir :: "string \<Rightarrow> string" where
  "Dir path = Clean (rev (dropWhile (\<lambda>c. c \<noteq> PathSeparator) (rev path)))"

section \<open>Data model\<close>

text \<open>The constants of package \<open>config\<close>.\<close>

definition BrowserName :: string where
  "BrowserName = ''Noraneko''"

definition BrowserExe :: string where
  "BrowserExe = ''noraneko.exe''"

definition ReleaseAPIURL :: string where
  "ReleaseAPIURL = ''https://api.github.com/repos/f3liz-dev/noraneko-runtime/releases''"

definition ConnectCheckURL :: string where
  "ConnectCheckURL = ''https://api.github.com''"

record Config =
  Path :: string
  WorkDir :: string
  UpdateSelf :: bool
  IgnoreCrlErrors :: bool
  Branch :: string
  ExeDir :: string
  ConfigFile :: string

record Options =
  Scheduled :: bool
  Portable :: bool
  CheckOnly :: bool
  CreateTask :: bool
  RemoveTask :: bool
  Version :: string

record Asset =
  Name :: string
  BrowserDownloadURL :: string
  Size :: int

record Release =
  TagName :: string
  ReleaseName :: string
  Assets :: "Asset list"

text \<open>
  The updater: its configuration and options. The HTTP client is part of the
  environment below. The field \<open>release\<close> of the Go struct is assigned once by \<open>Run\<close>
  before any function reads it; the model passes the release as an argument instead.
\<close>

record Updater =
  cfg :: Config
  opts :: Options

text \<open>One entry of an opened zip archive: its name, whether its header marks a
  directory, and its contents. File modes are not modelled.\<close>

record ZipFile =
  EntryName :: string
  IsDir :: bool
  Data :: string

text \<open>
  Every call that leaves the process is an \<open>action\<close>. The trace of a run is the list
  of the actions it attempted, in order.
\<close>

datatype action =
    HttpGet string
  | OsCreate string
  | IoCopy string
  | OsReadFile string
  | OsWriteFile string
  | OsOpen string
  | HashCopy string
  | OsRemove string
  | OsRemoveAll string
  | OsMkdirAll string
  | OsReadDir string
  | ZipOpenReader string
  | OsOpenFile string
  | ZipEntryOpen string
  | CopyDir string string
  | ExecRun string "string list"

text \<open>
  Errors. \<open>Failed a\<close> is the error value that the failed external call \<open>a\<close> returned;
  \<open>Wrapped ctx e\<close> is \<open>fmt.Errorf("ctx: %w", e)\<close>; the other constructors are the
  messages that the updater creates itself, with their parameters.
\<close>

datatype error =
    Failed action
  | Wrapped string error
  | ApiStatus int
  | ApiStatusBody int string
  | DecodeFailed
  | BrowserNotFound
  | VersionNotDetermined
  | NoSuitableDownload
  | DownloadStatus int
  | ChecksumNotFound string
  | ChecksumMismatch string string
  | IllegalFilePath string

text \<open>
  The environment answers the external calls. The answers to a call may depend on the
  moment of the call (the number of actions attempted before it), so that two calls
  with the same arguments may fare differently.
  \<^item> \<open>failing t a\<close>: the action \<open>a\<close>, attempted at moment \<open>t\<close>, returns an error;
  \<^item> \<open>writeFileFails t p\<close>: \<open>os.WriteFile\<close> on \<open>p\<close> at moment \<open>t\<close> returns an error;
  \<^item> \<open>httpResponse t url\<close>: status code and body of the response;
  \<^item> \<open>copied t\<close>: the number of bytes that an \<open>io.Copy\<close> failing at \<open>t\<close> wrote before;
  \<^item> \<open>getenv\<close>: \<open>os.Getenv\<close>;
  \<^item> \<open>readDirEntries t p\<close>: names and directory flags that \<open>os.ReadDir\<close> returns;
  \<^item> \<open>zipDecode\<close>: the entries of a file's contents read as a zip archive, if it is one;
  \<^item> \<open>jsonDecodeRelease\<close>: the release that a response body decodes to, if it does;
  \<^item> \<open>sha256hex\<close>: \<open>hex.EncodeToString\<close> of the SHA-256 digest;
  \<^item> \<open>timeNow t\<close>: \<open>time.Now().Format("2006-01-02 15:04:05")\<close> at moment \<open>t\<close>;
  \<^item> \<open>goarch\<close>: \<open>runtime.GOARCH\<close>.
\<close>

record env =
  failing :: "nat \<Rightarrow> action \<Rightarrow> bool"
  writeFileFails :: "nat \<Rightarrow> string \<Rightarrow> bool"
  httpResponse :: "nat \<Rightarrow> string \<Rightarrow> int \<times> string"
  copied :: "nat \<Rightarrow> nat"
  getenv :: "string \<Rightarrow> string"
  readDirEntries :: "nat \<Rightarrow> string \<Rightarrow> (string \<times> bool) list"
  zipDecode :: "string \<Rightarrow> ZipFile list option"
  jsonDecodeRelease :: "string \<Rightarrow> Release option"
  sha256hex :: "string \<Rightarrow> string"
  timeNow :: "nat \<Rightarrow> string"
  goarch :: string

text \<open>
  The world that a run changes: the files (path to contents) and directories that
  exist, and the trace of the actions attempted so far.
\<close>

record world =
  files :: "string \<Rightarrow> string option"
  dirs :: "string set"
  trace :: "action list"

text \<open>Attempting an action: it is recorded, and the environment says whether it
  succeeded.\<close>

definition attempt :: "env \<Rightarrow> action \<Rightarrow> world \<Rightarrow> bool \<times> world" where
  "attempt e a w = (\<not> failing e (length (trace w)) a, w\<lparr>trace := trace w @ [a]\<rparr>)"

text \<open>\<open>os.Stat(p)\<close> returns no error: \<open>p\<close> exists.\<close>

definition statOk :: "world \<Rightarrow> string \<Rightarrow> bool" where
  "statOk w p = (files w p \<noteq> None \<or> p \<in> dirs w)"

text \<open>A path lies under a directory: it is the directory or continues it after a
  separator.\<close>

definition under :: "string \<Rightarrow> string \<Rightarrow> bool" where
  "under dir p = (p = dir \<or> HasPrefix p (dir @ [PathSeparator]))"

text \<open>\<open>os.Remove\<close> of a file and \<open>os.RemoveAll\<close>, with the error value as a flag.\<close>

definition osRemove :: "env \<Rightarrow> string \<Rightarrow> world \<Rightarrow> bool \<times> world" where
  "osRemove e p w =
     (case attempt e (OsRemove p) w of
        (ok, w1) \<Rightarrow> if ok then (True, w1\<lparr>files := (files w1)(p := None)\<rparr>) else (False, w1))"

definition osRemoveAll :: "env \<Rightarrow> string \<Rightarrow> world \<Rightarrow> bool \<times> world" where
  "osRemoveAll e p w =
     (case attempt e (OsRemoveAll p) w of
        (ok, w1) \<Rightarrow>
          if ok
          then (True, w1\<lparr>files := (\<lambda>q. if under p q then None else files w1 q),
                         dirs := {d \<in> dirs w1. \<not> under p d}\<rparr>)
          else (False, w1))"

definition osMkdirAll :: "env \<Rightarrow> string \<Rightarrow> world \<Rightarrow> bool \<times> world" where
  "osMkdirAll e p w =
     (case attempt e (OsMkdirAll p) w of
        (ok, w1) \<Rightarrow> if ok then (True, w1\<lparr>dirs := insert p (dirs w1)\<rparr>) else (False, w1))"

text \<open>\<open>os.ReadFile\<close>: the contents, or an error when the call fails or there is no
  such file.\<close>

definition osReadFile :: "env \<Rightarrow> string \<Rightarrow> world \<Rightarrow> (error + string) \<times> world" where
  "osReadFile e p w =
     (case attempt e (OsReadFile p) w of
        (ok, w1) \<Rightarrow>
          (case files w1 p of
             Some data \<Rightarrow> if ok then (Inr data, w1) else (Inl (Failed (OsReadFile p)), w1)
           | None \<Rightarrow> (Inl (Failed (OsReadFile p)), w1)))"

section \<open>Version comparator\<close>

text \<open>
  \<open>func (u *Updater) isNewerVersion(current, latest string) bool\<close>
  (updater.go, lines 194 to 204). The receiver is not read.
\<close>

definition isNewerVersion :: "string \<Rightarrow> string \<Rightarrow> bool" where
  "isNewerVersion current latest =
     (let current' = TrimPrefix current ''v'';
          latest' = TrimPrefix latest ''v''
      in if current' = [] \<or> current' = ''0.0.0'' then True
         else latest' \<noteq> current')"

text \<open>
  The normalisation in the words of the specification: a single leading \<open>v\<close> is removed,
  nothing else.
\<close>

fun strip_v :: "string \<Rightarrow> string" where
  "strip_v (c # cs) = (if c = CHR ''v'' then cs else c # cs)"
| "strip_v [] = []"

section \<open>Asset resolver\<close>

text \<open>
  \<open>findAsset\<close> (updater.go, lines 244 to 287). \<open>isPortable\<close> is the value of
  \<open>u.cfg.IsPortable() || u.opts.Portable\<close>, \<open>arch\<close> the constant \<open>runtime.GOARCH\<close>, and
  the asset list is \<open>u.release.Assets\<close>.
\<close>

definition assetSuffixes :: "bool \<Rightarrow> string \<Rightarrow> string list" where
  "assetSuffixes isPortable GOARCH =
     (let arch = (if GOARCH = ''386'' then ''i686'' else ''x86_64'');
          suffix = (if isPortable then ''windows-'' @ arch @ ''-portable.zip''
                    else ''windows-'' @ arch @ ''-setup.exe'')
      in [suffix, ''win64.zip'', ''win64-setup.exe'', ''windows.zip'', ''windows-setup.exe''])"

text \<open>The inner loop \<open>for _, s := range suffixes\<close>, for one lowercased asset name.\<close>

fun matchesSuffixes :: "string \<Rightarrow> string list \<Rightarrow> bool" where
  "matchesSuffixes name [] = False"
| "matchesSuffixes name (s # ss) =
     (if Contains name (ToLower s) \<or> HasSuffix name (ToLower s) then True
      else matchesSuffixes name ss)"

text \<open>The outer loop \<open>for _, asset := range u.release.Assets\<close> of the first pass.\<close>

fun findBySuffixes :: "string list \<Rightarrow> Asset list \<Rightarrow> Asset option" where
  "findBySuffixes sfxs [] = None"
| "findBySuffixes sfxs (asset # rest) =
     (if matchesSuffixes (ToLower (Name asset)) sfxs then Some asset
      else findBySuffixes sfxs rest)"

text \<open>The test of the second pass: any Windows executable or zip.\<close>

definition isWindowsPackage :: "Asset \<Rightarrow> bool" where
  "isWindowsPackage asset =
     (let name = ToLower (Name asset)
      in (Contains name ''windows'' \<or> Contains name ''win'')
         \<and> (HasSuffix name ''.exe'' \<or> HasSuffix name ''.zip''))"

fun findWindowsPackage :: "Asset list \<Rightarrow> Asset option" where
  "findWindowsPackage [] = None"
| "findWindowsPackage (asset # rest) =
     (if isWindowsPackage asset then Some asset else findWindowsPackage rest)"

definition findAsset :: "bool \<Rightarrow> string \<Rightarrow> Asset list \<Rightarrow> error + Asset" where
  "findAsset isPortable GOARCH assets =
     (case findBySuffixes (assetSuffixes isPortable GOARCH) assets of
        Some asset \<Rightarrow> Inr asset
      | None \<Rightarrow>
          (case findWindowsPackage assets of
             Some asset \<Rightarrow> Inr asset
           | None \<Rightarrow> Inl NoSuitableDownload))"

text \<open>\<open>findChecksumAsset\<close> (updater.go, lines 290 to 298).\<close>

fun findChecksumAsset :: "Asset list \<Rightarrow> Asset option" where
  "findChecksumAsset [] = None"
| "findChecksumAsset (asset # rest) =
     (let name = ToLower (Name asset)
      in if Contains name ''sha256'' \<or> HasSuffix name ''.sha256'' then Some asset
         else findChecksumAsset rest)"

text \<open>
  An asset name matches a fragment when its lowercased form contains the lowercased
  fragment (a string that ends with the fragment contains it).
\<close>

definition matchesFragment :: "Asset \<Rightarrow> string \<Rightarrow> bool" where
  "matchesFragment asset s = Contains (ToLower (Name asset)) (ToLower s)"

section \<open>Secure fetcher\<close>

text \<open>
  \<open>downloadFile\<close> (updater.go, lines 301 to 326). The request and its transport are
  one action; \<open>os.Create\<close> truncates the file; a copy that fails leaves the bytes it
  wrote.
\<close>

definition downloadFile :: "env \<Rightarrow> string \<Rightarrow> string \<Rightarrow> world \<Rightarrow> (error + unit) \<times> world" where
  "downloadFile e url path w =
     (case attempt e (HttpGet url) w of
        (ok, w1) \<Rightarrow>
          if \<not> ok then (Inl (Failed (HttpGet url)), w1)
          else
            (case httpResponse e (length (trace w)) url of
               (status, body) \<Rightarrow>
                 if status \<noteq> 200 then (Inl (DownloadStatus status), w1)
                 else
                   (case attempt e (OsCreate path) w1 of
                      (ok, w2) \<Rightarrow>
                        if \<not> ok then (Inl (Failed (OsCreate path)), w2)
                        else
                          (let w3 = w2\<lparr>files := (files w2)(path \<mapsto> [])\<rparr>
                           in case attempt e (IoCopy path) w3 of
                                (ok, w4) \<Rightarrow>
                                  if \<not> ok
                                  then (Inl (Failed (IoCopy path)),
                                        w4\<lparr>files := (files w4)(path \<mapsto>
                                             take (copied e (length (trace w3))) body)\<rparr>)
                                  else (Inr (), w4\<lparr>files := (files w4)(path \<mapsto> body)\<rparr>)))))"

text \<open>
  The loop of \<open>verifyChecksum\<close> over the lines of the manifest (lines 344 to 356): the
  lowercased hash of the first line with at least two fields whose second field,
  without a leading \<open>*\<close>, matches the file name; the empty string when no line does.
\<close>

fun findExpectedHash :: "string list \<Rightarrow> string \<Rightarrow> string" where
  "findExpectedHash [] fileName = []"
| "findExpectedHash (line # rest) fileName =
     (case Fields line of
        hash # field # others \<Rightarrow>
          (let name = TrimPrefix field ''*''
           in if EqualFold name fileName \<or> HasSuffix name fileName then ToLower hash
              else findExpectedHash rest fileName)
      | _ \<Rightarrow> findExpectedHash rest fileName)"

text \<open>
  \<open>verifyChecksum\<close> (lines 329 to 380), in two parts: \<open>verifyAgainst\<close> is the body that
  runs after \<open>defer os.Remove(checksumPath)\<close> has been registered, and \<open>verifyChecksum\<close>
  runs the deferred removal after it, whatever it returned.
\<close>

definition verifyAgainst ::
    "env \<Rightarrow> string \<Rightarrow> string \<Rightarrow> string \<Rightarrow> world \<Rightarrow> (error + unit) \<times> world" where
  "verifyAgainst e filePath checksumPath fileName w =
     (case osReadFile e checksumPath w of
        (Inl err, w1) \<Rightarrow> (Inl (Wrapped ''failed to read checksum file'' err), w1)
      | (Inr data, w1) \<Rightarrow>
          (let expectedHash = findExpectedHash (splitOn newline data) fileName
           in if expectedHash = [] then (Inl (ChecksumNotFound fileName), w1)
              else
                (case attempt e (OsOpen filePath) w1 of
                   (ok, w2) \<Rightarrow>
                     (case files w2 filePath of
                        None \<Rightarrow> (Inl (Failed (OsOpen filePath)), w2)
                      | Some content \<Rightarrow>
                          if \<not> ok then (Inl (Failed (OsOpen filePath)), w2)
                          else
                            (case attempt e (HashCopy filePath) w2 of
                               (ok, w3) \<Rightarrow>
                                 if \<not> ok then (Inl (Failed (HashCopy filePath)), w3)
                                 else
                                   (let actualHash = sha256hex e content
                                    in if actualHash \<noteq> expectedHash
                                       then (Inl (ChecksumMismatch expectedHash actualHash), w3)
                                       else (Inr (), w3)))))))"

definition verifyChecksum ::
    "env \<Rightarrow> Updater \<Rightarrow> string \<Rightarrow> Asset \<Rightarrow> string \<Rightarrow> world \<Rightarrow> (error + unit) \<times> world" where
  "verifyChecksum e u filePath checksumAsset fileName w =
     (let checksumPath = filepathJoin [WorkDir (cfg u), Name checksumAsset]
      in case downloadFile e (BrowserDownloadURL checksumAsset) checksumPath w of
           (Inl err, w1) \<Rightarrow> (Inl (Wrapped ''failed to download checksum file'' err), w1)
         | (Inr ok, w1) \<Rightarrow>
             (case verifyAgainst e filePath checksumPath fileName w1 of
                (r, w2) \<Rightarrow> (r, snd (osRemove e checksumPath w2))))"

section \<open>Install transition\<close>

text \<open>\<open>Config.GetBrowserPath\<close> and \<open>Config.IsPortable\<close> (package \<open>config\<close>).\<close>

definition GetBrowserPath :: "env \<Rightarrow> world \<Rightarrow> Config \<Rightarrow> string" where
  "GetBrowserPath e w c =
     (if Path c \<noteq> [] then Path c
      else
        (let programFiles =
               (if getenv e ''ProgramFiles'' = [] then ''C:'' @ [CHR 0x5C] @ ''Program Files''
                else getenv e ''ProgramFiles'');
             possiblePaths =
               [filepathJoin [ExeDir c, BrowserName, BrowserExe],
                filepathJoin [programFiles, BrowserName, BrowserExe]];
             portablePath = filepathJoin [ExeDir c, BrowserName @ ''-Portable.exe''];
             possiblePaths' =
               (if statOk w portablePath
                then filepathJoin [ExeDir c, BrowserName, BrowserExe] # possiblePaths
                else possiblePaths)
         in case List.find (statOk w) possiblePaths' of
              Some p \<Rightarrow> p
            | None \<Rightarrow> []))"

definition IsPortable :: "world \<Rightarrow> Config \<Rightarrow> bool" where
  "IsPortable w c = statOk w (filepathJoin [ExeDir c, BrowserName @ ''-Portable.exe''])"

text \<open>
  The loop of \<open>unzip\<close> over the entries of the archive (lines 435 to 469). The error of
  \<open>os.MkdirAll\<close> for a directory entry is dropped, as in the source.
\<close>

fun unzipFiles :: "env \<Rightarrow> string \<Rightarrow> ZipFile list \<Rightarrow> world \<Rightarrow> (error + unit) \<times> world" where
  "unzipFiles e dest [] w = (Inr (), w)"
| "unzipFiles e dest (f # fs) w =
     (let fpath = filepathJoin [dest, EntryName f]
      in if \<not> HasPrefix fpath (Clean dest @ [PathSeparator]) then (Inl (IllegalFilePath fpath), w)
         else if IsDir f then unzipFiles e dest fs (snd (osMkdirAll e fpath w))
         else
           (case osMkdirAll e (Dir fpath) w of
              (ok, w1) \<Rightarrow>
                if \<not> ok then (Inl (Failed (OsMkdirAll (Dir fpath))), w1)
                else
                  (case attempt e (OsOpenFile fpath) w1 of
                     (ok, w2) \<Rightarrow>
                       if \<not> ok then (Inl (Failed (OsOpenFile fpath)), w2)
                       else
                         (let w3 = w2\<lparr>files := (files w2)(fpath \<mapsto> [])\<rparr>
                          in case attempt e (ZipEntryOpen (EntryName f)) w3 of
                               (ok, w4) \<Rightarrow>
                                 if \<not> ok then (Inl (Failed (ZipEntryOpen (EntryName f))), w4)
                                 else
                                   (case attempt e (IoCopy fpath) w4 of
                                      (ok, w5) \<Rightarrow>
                                        if \<not> ok
                                        then (Inl (Failed (IoCopy fpath)),
                                              w5\<lparr>files := (files w5)(fpath \<mapsto>
                                                   take (copied e (length (trace w4))) (Data f))\<rparr>)
                                        else unzipFiles e dest fs
                                               (w5\<lparr>files := (files w5)(fpath \<mapsto> Data f)\<rparr>))))))"

text \<open>\<open>unzip\<close> (lines 428 to 472): the archive is opened, then the loop runs.\<close>

definition unzip :: "env \<Rightarrow> string \<Rightarrow> string \<Rightarrow> world \<Rightarrow> (error + unit) \<times> world" where
  "unzip e src dest w =
     (case attempt e (ZipOpenReader src) w of
        (ok, w1) \<Rightarrow>
          (case (if ok then Option.bind (files w1 src) (zipDecode e) else None) of
             None \<Rightarrow> (Inl (Failed (ZipOpenReader src)), w1)
           | Some fs \<Rightarrow> unzipFiles e dest fs w1))"

text \<open>
  \<open>extractPortable\<close> (lines 383 to 425), in two parts as \<open>verifyChecksum\<close>:
  \<open>extractInto\<close> is the body after \<open>defer os.RemoveAll(extractDir)\<close>. \<open>copyDir\<close> is one
  action; the files it writes into the browser directory are not tracked.
\<close>

definition extractInto ::
    "env \<Rightarrow> string \<Rightarrow> string \<Rightarrow> string \<Rightarrow> world \<Rightarrow> (error + unit) \<times> world" where
  "extractInto e zipPath extractDir browserDir w =
     (case unzip e zipPath extractDir w of
        (Inl err, w1) \<Rightarrow> (Inl (Wrapped ''extraction failed'' err), w1)
      | (Inr ok, w1) \<Rightarrow>
          (case attempt e (OsReadDir extractDir) w1 of
             (ok, w2) \<Rightarrow>
               if \<not> ok then (Inl (Failed (OsReadDir extractDir)), w2)
               else
                 (let entries = readDirEntries e (length (trace w1)) extractDir;
                      sourceDir =
                        (case List.find snd entries of
                           Some d \<Rightarrow> filepathJoin [extractDir, fst d]
                         | None \<Rightarrow> extractDir)
                  in case attempt e (CopyDir sourceDir browserDir) w2 of
                       (ok, w3) \<Rightarrow>
                         if \<not> ok
                         then (Inl (Wrapped ''failed to copy files''
                                      (Failed (CopyDir sourceDir browserDir))), w3)
                         else (Inr (), w3))))"

definition stagingDir :: "Updater \<Rightarrow> string" where
  "stagingDir u = filepathJoin [WorkDir (cfg u), BrowserName @ ''-Extracted'']"

definition extractPortable :: "env \<Rightarrow> Updater \<Rightarrow> string \<Rightarrow> world \<Rightarrow> (error + unit) \<times> world" where
  "extractPortable e u zipPath w =
     (let browserDir0 = Dir (GetBrowserPath e w (cfg u));
          browserDir = (if browserDir0 = [] then filepathJoin [ExeDir (cfg u), BrowserName]
                        else browserDir0);
          extractDir = stagingDir u
      in case osRemoveAll e extractDir w of
           (ok, w1) \<Rightarrow>
             if \<not> ok
             then (Inl (Wrapped ''failed to clean extract directory''
                          (Failed (OsRemoveAll extractDir))), w1)
             else
               (case osMkdirAll e extractDir w1 of
                  (ok, w2) \<Rightarrow>
                    if \<not> ok
                    then (Inl (Wrapped ''failed to create extract directory''
                                 (Failed (OsMkdirAll extractDir))), w2)
                    else
                      (case extractInto e zipPath extractDir browserDir w2 of
                         (r, w3) \<Rightarrow> (r, snd (osRemoveAll e extractDir w3)))))"

text \<open>\<open>runInstaller\<close> (lines 514 to 530): the silent run, then once the interactive
  one.\<close>

definition runInstaller :: "env \<Rightarrow> Updater \<Rightarrow> string \<Rightarrow> world \<Rightarrow> (error + unit) \<times> world" where
  "runInstaller e u setupPath w =
     (let browserDir0 = Dir (GetBrowserPath e w (cfg u));
          browserDir = (if browserDir0 = []
                        then filepathJoin [getenv e ''ProgramFiles'', BrowserName]
                        else browserDir0)
      in case attempt e (ExecRun setupPath [''/S'', ''/D='' @ browserDir]) w of
           (ok, w1) \<Rightarrow>
             if ok then (Inr (), w1)
             else
               (case attempt e (ExecRun setupPath [''/D='' @ browserDir]) w1 of
                  (ok, w2) \<Rightarrow>
                    if ok then (Inr (), w2)
                    else (Inl (Failed (ExecRun setupPath [''/D='' @ browserDir])), w2)))"

text \<open>
  \<open>downloadAndInstall\<close> (lines 207 to 241). \<open>installOrExtract\<close> is its last part
  (lines 232 to 240); \<open>verifyThenInstall\<close> is what runs after
  \<open>defer os.Remove(downloadPath)\<close> has been registered (lines 223 to 240).
\<close>

definition installOrExtract ::
    "env \<Rightarrow> Updater \<Rightarrow> Asset \<Rightarrow> string \<Rightarrow> world \<Rightarrow> (error + unit) \<times> world" where
  "installOrExtract e u asset downloadPath w =
     (let isPortable = (IsPortable w (cfg u) \<or> Portable (opts u))
      in if isPortable \<or> HasSuffix (Name asset) ''.zip'' then extractPortable e u downloadPath w
         else runInstaller e u downloadPath w)"

definition verifyThenInstall ::
    "env \<Rightarrow> Updater \<Rightarrow> Release \<Rightarrow> Asset \<Rightarrow> string \<Rightarrow> world \<Rightarrow> (error + unit) \<times> world" where
  "verifyThenInstall e u rel asset downloadPath w =
     (case findChecksumAsset (Assets rel) of
        Some checksumAsset \<Rightarrow>
          (case verifyChecksum e u downloadPath checksumAsset (Name asset) w of
             (Inl err, w1) \<Rightarrow> (Inl (Wrapped ''checksum verification failed'' err), w1)
           | (Inr ok, w1) \<Rightarrow> installOrExtract e u asset downloadPath w1)
      | None \<Rightarrow> installOrExtract e u asset downloadPath w)"

definition downloadAndInstall ::
    "env \<Rightarrow> Updater \<Rightarrow> Release \<Rightarrow> world \<Rightarrow> (error + unit) \<times> world" where
  "downloadAndInstall e u rel w =
     (case findAsset (IsPortable w (cfg u) \<or> Portable (opts u)) (goarch e) (Assets rel) of
        Inl err \<Rightarrow> (Inl (Wrapped ''failed to find download'' err), w)
      | Inr asset \<Rightarrow>
          (let downloadPath = filepathJoin [WorkDir (cfg u), Name asset]
           in case downloadFile e (BrowserDownloadURL asset) downloadPath w of
                (Inl err, w1) \<Rightarrow> (Inl (Wrapped ''download failed'' err), w1)
              | (Inr ok, w1) \<Rightarrow>
                  (case verifyThenInstall e u rel asset downloadPath w1 of
                     (r, w2) \<Rightarrow> (r, snd (osRemove e downloadPath w2)))))"

section \<open>Outcome log\<close>

text \<open>
  \<open>os.WriteFile\<close>: the call is recorded; the environment says through \<open>writeFileFails\<close>
  whether it fails. A failing call is modelled as one that cannot open the file, which
  keeps its contents.
\<close>

definition osWriteFile :: "env \<Rightarrow> string \<Rightarrow> string \<Rightarrow> world \<Rightarrow> (error + unit) \<times> world" where
  "osWriteFile e p data w =
     (let w1 = w\<lparr>trace := trace w @ [OsWriteFile p]\<rparr>
      in if writeFileFails e (length (trace w)) p then (Inl (Failed (OsWriteFile p)), w1)
         else (Inr (), w1\<lparr>files := (files w1)(p \<mapsto> data)\<rparr>))"

text \<open>
  \<open>Config.LogEntry\<close> (package \<open>config\<close>, lines 168 to 229). \<open>replaceKey\<close> is the first
  loop: it replaces the first line of a \<open>[Log]\<close> section that starts with the key, and
  answers \<open>None\<close> when there is no such line (\<open>found\<close> stays false). \<open>inLog\<close> is the
  variable \<open>inLogSection\<close>.
\<close>

fun replaceKey :: "string \<Rightarrow> string \<Rightarrow> bool \<Rightarrow> string list \<Rightarrow> string list option" where
  "replaceKey key val inLog [] = None"
| "replaceKey key val inLog (line # rest) =
     (let trimmedLine = TrimSpace line
      in if HasPrefix trimmedLine ''[Log]''
         then map_option ((#) line) (replaceKey key val True rest)
         else if HasPrefix trimmedLine ''['' \<and> HasSuffix trimmedLine '']''
         then map_option ((#) line) (replaceKey key val False rest)
         else if inLog \<and> HasPrefix (ToLower trimmedLine) (ToLower key @ ''='')
         then Some ((key @ ''='' @ val) # rest)
         else map_option ((#) line) (replaceKey key val inLog rest))"

text \<open>
  The second loop, which runs when the key was not found: the entry is put before the
  first empty line or section header that follows a \<open>[Log]\<close> header. The result is
  \<open>newLines\<close> and the final value of \<open>addedToLog\<close>.
\<close>

fun appendLines :: "string \<Rightarrow> bool \<Rightarrow> bool \<Rightarrow> string list \<Rightarrow> string list \<times> bool" where
  "appendLines entry inLog added [] = ([], added)"
| "appendLines entry inLog added (line # rest) =
     (let trimmedLine = TrimSpace line
      in if HasPrefix trimmedLine ''[Log]''
         then (case appendLines entry True added rest of (ls, a) \<Rightarrow> (line # ls, a))
         else
           (let isHeader = (HasPrefix trimmedLine ''['' \<and> HasSuffix trimmedLine '']'');
                add = (inLog \<and> \<not> added \<and> (trimmedLine = [] \<or> isHeader));
                inLog' = (if isHeader \<and> trimmedLine \<noteq> ''[Log]'' then False else inLog)
            in case appendLines entry inLog' (added \<or> add) rest of
                 (ls, a) \<Rightarrow> ((if add then [entry] else []) @ line # ls, a)))"

definition appendKey :: "string \<Rightarrow> string \<Rightarrow> string list \<Rightarrow> string list" where
  "appendKey key val lines =
     (case appendLines (key @ ''='' @ val) False False lines of
        (ls, added) \<Rightarrow> if added then ls else ls @ [key @ ''='' @ val])"

definition logLines :: "string \<Rightarrow> string \<Rightarrow> string \<Rightarrow> string list" where
  "logLines key val existingContent =
     (let existing = (if \<not> Contains existingContent ''[Log]''
                      then existingContent @ [newline] @ ''[Log]'' @ [newline]
                      else existingContent);
          lines = splitOn newline existing
      in case replaceKey key val False lines of
           Some ls \<Rightarrow> ls
         | None \<Rightarrow> appendKey key val lines)"

definition LogEntry ::
    "env \<Rightarrow> Config \<Rightarrow> string \<Rightarrow> string \<Rightarrow> world \<Rightarrow> (error + unit) \<times> world" where
  "LogEntry e c key val w =
     (case osReadFile e (ConfigFile c) w of
        (r, w1) \<Rightarrow>
          (let existingContent = (case r of Inr data \<Rightarrow> data | Inl err \<Rightarrow> [])
           in osWriteFile e (ConfigFile c)
                (JoinStrings (logLines key val existingContent) [newline]) w1))"

text \<open>
  \<open>logResult\<close> (updater.go, lines 555 to 559). It has no result: the errors of the two
  calls of \<open>LogEntry\<close> are dropped.
\<close>

definition logResult :: "env \<Rightarrow> Updater \<Rightarrow> string \<Rightarrow> world \<Rightarrow> world" where
  "logResult e u result w =
     (let timestamp = timeNow e (length (trace w));
          w1 = snd (LogEntry e (cfg u) ''LastRun'' timestamp w)
      in snd (LogEntry e (cfg u) ''LastResult'' result w1))"

section \<open>Orchestrator\<close>

text \<open>\<open>checkConnection\<close> (updater.go, lines 120 to 131).\<close>

definition checkConnection :: "env \<Rightarrow> world \<Rightarrow> (error + unit) \<times> world" where
  "checkConnection e w =
     (case attempt e (HttpGet ConnectCheckURL) w of
        (ok, w1) \<Rightarrow>
          if \<not> ok then (Inl (Failed (HttpGet ConnectCheckURL)), w1)
          else
            (case httpResponse e (length (trace w)) ConnectCheckURL of
               (status, body) \<Rightarrow>
                 if status \<ge> 400 then (Inl (ApiStatus status), w1) else (Inr (), w1)))"

text \<open>
  The match of the regular expression \<open>(?m)^Version=(.+)$\<close> in \<open>getCurrentVersion\<close>: the
  leftmost match is in the first line that starts with \<open>Version=\<close> and goes on with at
  least one byte; the group is the rest of that line.
\<close>

fun versionLine :: "string list \<Rightarrow> string option" where
  "versionLine [] = None"
| "versionLine (line # rest) =
     (if HasPrefix line ''Version='' \<and> length line > length ''Version=''
      then Some (drop (length ''Version='') line)
      else versionLine rest)"

text \<open>\<open>getCurrentVersion\<close> (updater.go, lines 134 to 161).\<close>

definition getCurrentVersion :: "env \<Rightarrow> Updater \<Rightarrow> world \<Rightarrow> (error + string) \<times> world" where
  "getCurrentVersion e u w =
     (let browserPath = GetBrowserPath e w (cfg u)
      in if browserPath = [] then (Inl BrowserNotFound, w)
         else
           (let browserDir = Dir browserPath;
                appIniPath = filepathJoin [browserDir, ''application.ini''];
                versionPath = filepathJoin [browserDir, ''version''];
                tryVersionFile = (\<lambda>w1.
                  case osReadFile e versionPath w1 of
                    (Inr data, w2) \<Rightarrow> (Inr (TrimSpace data), w2)
                  | (Inl err, w2) \<Rightarrow> (Inl VersionNotDetermined, w2))
            in case osReadFile e appIniPath w of
                 (Inr data, w1) \<Rightarrow>
                   (case versionLine (splitOn newline data) of
                      Some v \<Rightarrow> (Inr (TrimSpace v), w1)
                    | None \<Rightarrow> tryVersionFile w1)
               | (Inl err, w1) \<Rightarrow> tryVersionFile w1))"

text \<open>\<open>getLatestRelease\<close> (updater.go, lines 164 to 191). Building the request cannot
  fail: method and address are constants.\<close>

definition getLatestRelease :: "env \<Rightarrow> world \<Rightarrow> (error + Release) \<times> world" where
  "getLatestRelease e w =
     (let url = ReleaseAPIURL @ ''/latest''
      in case attempt e (HttpGet url) w of
           (ok, w1) \<Rightarrow>
             if \<not> ok then (Inl (Failed (HttpGet url)), w1)
             else
               (case httpResponse e (length (trace w)) url of
                  (status, body) \<Rightarrow>
                    if status \<noteq> 200 then (Inl (ApiStatusBody status body), w1)
                    else
                      (case jsonDecodeRelease e body of
                         None \<Rightarrow> (Inl (Wrapped ''failed to decode release info'' DecodeFailed), w1)
                       | Some release \<Rightarrow> (Inr release, w1))))"

text \<open>
  \<open>Run\<close> (updater.go, lines 67 to 117). What the run prints on the standard output is
  not modelled. \<open>discover\<close> is the part up to the comparison of the versions (lines 68 to
  93): it gives the current version, \<open>0.0.0\<close> when it cannot be read, and the latest
  release. \<open>Run\<close> goes on from there.
\<close>

definition discover :: "env \<Rightarrow> Updater \<Rightarrow> world \<Rightarrow> (error + string \<times> Release) \<times> world" where
  "discover e u w =
     (case checkConnection e w of
        (Inl err, w1) \<Rightarrow> (Inl (Wrapped ''connection check failed'' err), w1)
      | (Inr ok, w1) \<Rightarrow>
          (case getCurrentVersion e u w1 of
             (r, w2) \<Rightarrow>
               (let currentVersion = (case r of Inr v \<Rightarrow> v | Inl err \<Rightarrow> ''0.0.0'')
                in case getLatestRelease e w2 of
                     (Inl err, w3) \<Rightarrow> (Inl (Wrapped ''failed to get latest release'' err), w3)
                   | (Inr release, w3) \<Rightarrow> (Inr (currentVersion, release), w3))))"

definition Run :: "env \<Rightarrow> Updater \<Rightarrow> world \<Rightarrow> (error + unit) \<times> world" where
  "Run e u w =
     (case discover e u w of
        (Inl err, w1) \<Rightarrow> (Inl err, w1)
      | (Inr (currentVersion, release), w1) \<Rightarrow>
          (let newVersion = TrimPrefix (TagName release) ''v''
           in if \<not> isNewerVersion currentVersion newVersion
              then (Inr (), logResult e u ''No new version found'' w1)
              else if CheckOnly (opts u) then (Inr (), w1)
              else
                (case downloadAndInstall e u release w1 of
                   (Inl err, w2) \<Rightarrow> (Inl (Wrapped ''update failed'' err), w2)
                 | (Inr ok, w2) \<Rightarrow>
                     (Inr (), logResult e u
                        (''Updated from '' @ currentVersion @ '' to '' @ newVersion) w2))))"

section \<open>Notions used in the properties\<close>

text \<open>The actions that a call added to the trace, from the world before to the world
  after it.\<close>

definition newActions :: "world \<Rightarrow> world \<Rightarrow> action list" where
  "newActions w w' = drop (length (trace w)) (trace w')"

text \<open>
  The actions of the two install strategies, \<open>extractPortable\<close> and \<open>runInstaller\<close>:
  removing and creating the staging directory, opening the archive, writing its
  entries, listing the staging directory, copying into the browser directory, and
  running the installer. \<open>extractPortable\<close> starts with \<open>os.RemoveAll\<close> and \<open>runInstaller\<close>
  with the run of the installer, so a strategy that is invoked leaves an install action.
\<close>

fun installAction :: "action \<Rightarrow> bool" where
  "installAction (OsRemoveAll p) = True"
| "installAction (OsMkdirAll p) = True"
| "installAction (ZipOpenReader p) = True"
| "installAction (OsOpenFile p) = True"
| "installAction (ZipEntryOpen n) = True"
| "installAction (OsReadDir p) = True"
| "installAction (CopyDir s d) = True"
| "installAction (ExecRun p args) = True"
| "installAction a = False"

text \<open>
  The records of a checksum manifest: for every line with at least two fields, the
  first field (the hash) and the second without a leading \<open>*\<close> (the file name), in the
  order of the lines. A record matches a file name when its name equals it up to the
  case of letters, or ends with it byte for byte.
\<close>

definition manifestRecords :: "string \<Rightarrow> (string \<times> string) list" where
  "manifestRecords data =
     List.map_filter
       (\<lambda>line. case Fields line of
                  hash # field # others \<Rightarrow> Some (hash, TrimPrefix field ''*'')
                | _ \<Rightarrow> None)
       (splitOn newline data)"

definition recordMatches :: "string \<Rightarrow> string \<times> string \<Rightarrow> bool" where
  "recordMatches fileName r = (EqualFold (snd r) fileName \<or> HasSuffix (snd r) fileName)"

text \<open>From \<open>w\<close> to \<open>w'\<close> the trace was only extended, by actions that all satisfy \<open>P\<close>.\<close>

definition onlyAdds :: "(action \<Rightarrow> bool) \<Rightarrow> world \<Rightarrow> world \<Rightarrow> bool" where
  "onlyAdds P w w' = (prefix (trace w) (trace w') \<and> list_all P (newActions w w'))"

text \<open>The calls of \<open>os.WriteFile\<close>; the updater makes them in \<open>Config.LogEntry\<close> only.\<close>

fun isWriteFile :: "action \<Rightarrow> bool" where
  "isWriteFile (OsWriteFile p) = True"
| "isWriteFile a = False"

text \<open>
  The texts of a run that go through the functions for letters and white space are
  ASCII: the configuration file and the two files that \<open>getCurrentVersion\<close> reads, as
  far as they exist, the time stamps, and for every release that a response decodes to,
  the names of its assets and the text of its checksum manifest.
\<close>

definition asciiFile :: "world \<Rightarrow> string \<Rightarrow> bool" where
  "asciiFile w p = (case files w p of Some d \<Rightarrow> isASCII d | None \<Rightarrow> True)"

definition asciiTexts :: "env \<Rightarrow> Updater \<Rightarrow> world \<Rightarrow> bool" where
  "asciiTexts e u w =
     (asciiFile w (ConfigFile (cfg u))
      \<and> asciiFile w (filepathJoin [Dir (GetBrowserPath e w (cfg u)), ''application.ini''])
      \<and> asciiFile w (filepathJoin [Dir (GetBrowserPath e w (cfg u)), ''version''])
      \<and> (\<forall>t. isASCII (timeNow e t))
      \<and> (\<forall>body r. jsonDecodeRelease e body = Some r \<longrightarrow>
            list_all (\<lambda>a. isASCII (Name a)) (Assets r)
          \<and> (\<forall>ca t. findChecksumAsset (Assets r) = Some ca \<longrightarrow>
                isASCII (snd (httpResponse e t (BrowserDownloadURL ca))))))"

text \<open>
  The run ends at the check-only exit of \<open>Run\<close>: the discovery succeeded, a newer version
  was found and the option \<open>CheckOnly\<close> is set. \<open>resultSummary\<close> is the text that \<open>Run\<close>
  gives to \<open>logResult\<close>.
\<close>

definition checkOnlyExit :: "env \<Rightarrow> Updater \<Rightarrow> world \<Rightarrow> bool" where
  "checkOnlyExit e u w =
     (case discover e u w of
        (Inr (currentVersion, release), w1) \<Rightarrow>
          isNewerVersion currentVersion (TrimPrefix (TagName release) ''v'') \<and> CheckOnly (opts u)
      | (Inl err, w1) \<Rightarrow> False)"

definition resultSummary :: "env \<Rightarrow> Updater \<Rightarrow> world \<Rightarrow> string" where
  "resultSummary e u w =
     (case discover e u w of
        (Inr (currentVersion, release), w1) \<Rightarrow>
          (if isNewerVersion currentVersion (TrimPrefix (TagName release) ''v'')
           then ''Updated from '' @ currentVersion @ '' to '' @ TrimPrefix (TagName release) ''v''
           else ''No new version found'')
      | (Inl err, w1) \<Rightarrow> [])"

section \<open>An example installation\<close>

text \<open>
  A release with an installer and a checksum manifest, an environment in which every
  call succeeds, the manifest names the installer and the digest of every file is the
  one of the manifest, an updater configured with the path of the browser, and a world
  in which the browser directory holds a \<open>version\<close> file.
\<close>

definition exampleRelease :: Release where
  "exampleRelease =
     \<lparr>TagName = ''v2.0.0'', ReleaseName = ''Noraneko 2.0.0'',
      Assets = [\<lparr>Name = ''noraneko-win64-setup.exe'', BrowserDownloadURL = ''https://dl/setup'',
                 Size = 4\<rparr>,
                \<lparr>Name = ''sha256sums.txt'', BrowserDownloadURL = ''https://dl/sums'',
                 Size = 2\<rparr>]\<rparr>"

definition exampleEnv :: env where
  "exampleEnv =
     \<lparr>failing = (\<lambda>t a. False),
      writeFileFails = (\<lambda>t p. False),
      httpResponse = (\<lambda>t url. (200, if url = ''https://dl/sums''
                                      then ''0A1B  noraneko-win64-setup.exe'' else ''data'')),
      copied = (\<lambda>t. 0),
      getenv = (\<lambda>name. []),
      readDirEntries = (\<lambda>t p. []),
      zipDecode = (\<lambda>d. None),
      jsonDecodeRelease = (\<lambda>body. Some exampleRelease),
      sha256hex = (\<lambda>d. ''0a1b''),
      timeNow = (\<lambda>t. ''2026-01-02 03:04:05''),
      goarch = ''amd64''\<rparr>"

definition exampleUpdater :: Updater where
  "exampleUpdater =
     \<lparr>cfg = \<lparr>Path = ''/b/noraneko.exe'', WorkDir = ''/t'', UpdateSelf = True,
             IgnoreCrlErrors = False, Branch = ''nightly'', ExeDir = ''/x'',
             ConfigFile = ''/x/u.ini''\<rparr>,
      opts = \<lparr>Scheduled = False, Portable = False, CheckOnly = False, CreateTask = False,
              RemoveTask = False, Version = ''1.0''\<rparr>\<rparr>"

definition exampleWorld :: world where
  "exampleWorld = \<lparr>files = [''/b/version'' \<mapsto> ''1.0.0''], dirs = {}, trace = []\<rparr>"

text \<open>The same release without its manifest.\<close>

definition exampleReleaseBare :: Release where
  "exampleReleaseBare = exampleRelease\<lparr>Assets := [hd (Assets exampleRelease)]\<rparr>"

text \<open>An environment in which the manifest names another file.\<close>

definition exampleEnvOtherManifest :: env where
  "exampleEnvOtherManifest =
     exampleEnv\<lparr>httpResponse := (\<lambda>t url. (200, if url = ''https://dl/sums''
                                                   then ''0A1B  other.exe'' else ''data''))\<rparr>"

section \<open>Facts about the string functions\<close>

lemma HasPrefix_prefix: "HasPrefix s p = prefix p s"
  unfolding HasPrefix_def prefix_def by (metis append_eq_conv_conj append_take_drop_id)

lemma HasSuffix_suffix: "HasSuffix s p = suffix p s"
proof
  assume "HasSuffix s p"
  then have "s = take (length s - length p) s @ p"
    by (metis HasSuffix_def append_take_drop_id)
  then show "suffix p s" by (metis suffixI)
next
  assume "suffix p s"
  then obtain r where "s = r @ p" by (auto simp: suffix_def)
  then show "HasSuffix s p" by (simp add: HasSuffix_def)
qed

section \<open>Facts about the record of actions\<close>

lemma onlyAdds_iff: "onlyAdds P w w' = (\<exists>xs. trace w' = trace w @ xs \<and> list_all P xs)"
  by (auto simp: onlyAdds_def newActions_def prefix_def)

lemma onlyAdds_refl: "trace w' = trace w \<Longrightarrow> onlyAdds P w w'"
  by (simp add: onlyAdds_iff)

lemma onlyAdds_trans: "onlyAdds P w w1 \<Longrightarrow> onlyAdds P w1 w2 \<Longrightarrow> onlyAdds P w w2"
  by (auto simp: onlyAdds_iff)

lemma onlyAdds_newActions:
  "onlyAdds P w w1 \<Longrightarrow> onlyAdds Q w1 w2 \<Longrightarrow> newActions w w2 = newActions w w1 @ newActions w1 w2"
  by (auto simp: onlyAdds_iff newActions_def)

lemma onlyAdds_mono: "onlyAdds P w w' \<Longrightarrow> (\<And>a. P a \<Longrightarrow> Q a) \<Longrightarrow> onlyAdds Q w w'"
  by (auto simp: onlyAdds_iff list_all_iff)

lemma onlyAdds_attempt: "attempt e a w = (ok, w') \<Longrightarrow> P a \<Longrightarrow> onlyAdds P w w'"
  by (auto simp: onlyAdds_iff attempt_def)

lemma osRemove_adds: "osRemove e p w = (ok, w') \<Longrightarrow> trace w' = trace w @ [OsRemove p]"
  by (auto simp: osRemove_def attempt_def split: if_splits)

lemma osRemoveAll_adds: "osRemoveAll e p w = (ok, w') \<Longrightarrow> trace w' = trace w @ [OsRemoveAll p]"
  by (auto simp: osRemoveAll_def attempt_def split: if_splits)

lemma osMkdirAll_adds: "osMkdirAll e p w = (ok, w') \<Longrightarrow> trace w' = trace w @ [OsMkdirAll p]"
  by (auto simp: osMkdirAll_def attempt_def split: if_splits)

lemma osReadFile_adds: "osReadFile e p w = (r, w') \<Longrightarrow> trace w' = trace w @ [OsReadFile p]"
  by (auto simp: osReadFile_def attempt_def split: if_splits option.splits)

lemma osWriteFile_adds: "osWriteFile e p d w = (r, w') \<Longrightarrow> trace w' = trace w @ [OsWriteFile p]"
  by (auto simp: osWriteFile_def Let_def split: if_splits)

lemma downloadFile_adds:
  "downloadFile e url p w = (r, w') \<Longrightarrow>
   onlyAdds (\<lambda>a. a \<in> {HttpGet url, OsCreate p, IoCopy p}) w w'"
  by (auto simp: downloadFile_def attempt_def onlyAdds_iff Let_def split: if_splits prod.splits)

lemma verifyAgainst_adds:
  "verifyAgainst e fp cp fn w = (r, w') \<Longrightarrow>
   onlyAdds (\<lambda>a. a \<in> {OsReadFile cp, OsOpen fp, HashCopy fp}) w w'"
  by (auto simp: verifyAgainst_def osReadFile_def attempt_def onlyAdds_iff Let_def
      split: if_splits prod.splits option.splits sum.splits)

lemma verifyChecksum_adds:
  assumes "verifyChecksum e u fp ca fn w = (r, w')"
  shows "onlyAdds (\<lambda>a. \<not> installAction a \<and> \<not> isWriteFile a) w w'"
proof -
  let ?P = "\<lambda>a. \<not> installAction a \<and> \<not> isWriteFile a"
  let ?cp = "filepathJoin [WorkDir (cfg u), Name ca]"
  obtain r1 w1 where d: "downloadFile e (BrowserDownloadURL ca) ?cp w = (r1, w1)"
    by (cases "downloadFile e (BrowserDownloadURL ca) ?cp w")
  have a1: "onlyAdds ?P w w1"
    by (rule onlyAdds_mono [OF downloadFile_adds [OF d]]) auto
  show ?thesis
  proof (cases r1)
    case (Inl err)
    with assms d a1 show ?thesis by (simp add: verifyChecksum_def)
  next
    case (Inr ok)
    obtain r2 w2 where v: "verifyAgainst e fp ?cp fn w1 = (r2, w2)"
      by (cases "verifyAgainst e fp ?cp fn w1")
    have a2: "onlyAdds ?P w1 w2"
      by (rule onlyAdds_mono [OF verifyAgainst_adds [OF v]]) auto
    obtain ok3 w3 where rm: "osRemove e ?cp w2 = (ok3, w3)"
      by (cases "osRemove e ?cp w2")
    have a3: "onlyAdds ?P w2 w3"
      using osRemove_adds [OF rm] by (simp add: onlyAdds_iff)
    from assms d Inr v rm have "w' = w3" by (simp add: verifyChecksum_def)
    with a1 a2 a3 show ?thesis by (blast intro: onlyAdds_trans)
  qed
qed

lemma unzipFiles_adds:
  assumes "\<And>p. P (OsMkdirAll p)" "\<And>p. P (OsOpenFile p)" "\<And>n. P (ZipEntryOpen n)"
    "\<And>p. P (IoCopy p)"
  shows "unzipFiles e dest fs w = (r, w') \<Longrightarrow> onlyAdds P w w'"
proof (induction fs arbitrary: w)
  case Nil
  then show ?case by (simp add: onlyAdds_iff)
next
  case (Cons f fs)
  show ?case
    using Cons.prems assms
    by (auto simp: Let_def osMkdirAll_def attempt_def onlyAdds_iff
        split: if_splits prod.splits dest!: Cons.IH)
qed

lemma unzip_adds:
  assumes "unzip e src dest w = (r, w')"
  shows "onlyAdds (\<lambda>a. \<not> isWriteFile a) w w'"
proof -
  obtain ok w1 where a: "attempt e (ZipOpenReader src) w = (ok, w1)"
    by (cases "attempt e (ZipOpenReader src) w")
  have a1: "onlyAdds (\<lambda>a. \<not> isWriteFile a) w w1"
    by (rule onlyAdds_attempt [OF a]) simp
  show ?thesis
  proof (cases "if ok then Option.bind (files w1 src) (zipDecode e) else None")
    case None
    with assms a a1 show ?thesis by (simp add: unzip_def)
  next
    case (Some fs)
    with assms a have "unzipFiles e dest fs w1 = (r, w')" by (simp add: unzip_def)
    then have "onlyAdds (\<lambda>a. \<not> isWriteFile a) w1 w'"
      by (rule unzipFiles_adds [rotated -1]) simp_all
    with a1 show ?thesis by (rule onlyAdds_trans)
  qed
qed

lemma extractInto_adds:
  assumes "extractInto e zp ed bd w = (r, w')"
  shows "onlyAdds (\<lambda>a. \<not> isWriteFile a) w w'"
proof -
  obtain r1 w1 where u: "unzip e zp ed w = (r1, w1)" by (cases "unzip e zp ed w")
  note a1 = unzip_adds [OF u]
  show ?thesis
  proof (cases r1)
    case (Inl err)
    with assms u a1 show ?thesis by (simp add: extractInto_def)
  next
    case (Inr ok)
    with assms u have "onlyAdds (\<lambda>a. \<not> isWriteFile a) w1 w'"
      by (auto simp: extractInto_def attempt_def onlyAdds_iff Let_def split: if_splits)
    with a1 show ?thesis by (rule onlyAdds_trans)
  qed
qed

lemma extractPortable_adds:
  assumes "extractPortable e u zp w = (r, w')"
  shows "onlyAdds (\<lambda>a. \<not> isWriteFile a) w w'"
    and "\<exists>xs. newActions w w' = OsRemoveAll (stagingDir u) # xs"
proof -
  let ?P = "\<lambda>a. \<not> isWriteFile a"
  let ?d = "stagingDir u"
  obtain ok1 w1 where r1: "osRemoveAll e ?d w = (ok1, w1)" by (cases "osRemoveAll e ?d w")
  note t1 = osRemoveAll_adds [OF r1]
  obtain ok2 w2 where m2: "osMkdirAll e ?d w1 = (ok2, w2)" by (cases "osMkdirAll e ?d w1")
  note t2 = osMkdirAll_adds [OF m2]
  let ?bd0 = "Dir (GetBrowserPath e w (cfg u))"
  let ?bd = "if ?bd0 = [] then filepathJoin [ExeDir (cfg u), BrowserName] else ?bd0"
  obtain r3 w3 where x3: "extractInto e zp ?d ?bd w2 = (r3, w3)"
    by (cases "extractInto e zp ?d ?bd w2")
  note t3 = extractInto_adds [OF x3]
  obtain ok4 w4 where r4: "osRemoveAll e ?d w3 = (ok4, w4)" by (cases "osRemoveAll e ?d w3")
  note t4 = osRemoveAll_adds [OF r4]
  from assms r1 m2 x3 r4 have "w' = w1 \<or> w' = w2 \<or> w' = w4"
    by (auto simp: extractPortable_def Let_def split: if_splits)
  moreover from assms r1 m2 x3 r4 have "w' = w4 \<Longrightarrow> ok1 \<and> ok2 \<or> w4 = w1 \<or> w4 = w2"
    by (auto simp: extractPortable_def Let_def split: if_splits)
  ultimately have "\<exists>xs. trace w' = trace w @ OsRemoveAll ?d # xs \<and> list_all ?P xs"
    using t1 t2 t3 t4 by (auto simp: onlyAdds_iff)
  then show "onlyAdds ?P w w'" and "\<exists>xs. newActions w w' = OsRemoveAll ?d # xs"
    by (auto simp: onlyAdds_iff newActions_def)
qed

lemma runInstaller_adds:
  assumes "runInstaller e u sp w = (r, w')"
  shows "onlyAdds (\<lambda>a. \<not> isWriteFile a) w w'"
    and "\<exists>args xs. newActions w w' = ExecRun sp args # xs"
  using assms
  by (auto simp: runInstaller_def attempt_def onlyAdds_iff newActions_def Let_def
      split: if_splits)

lemma installOrExtract_adds:
  assumes "installOrExtract e u asset p w = (r, w')"
  shows "onlyAdds (\<lambda>a. \<not> isWriteFile a) w w'"
    and "\<exists>a xs. newActions w w' = a # xs \<and> installAction a"
proof -
  from assms have "extractPortable e u p w = (r, w') \<or> runInstaller e u p w = (r, w')"
    by (auto simp: installOrExtract_def Let_def split: if_splits)
  then show "onlyAdds (\<lambda>a. \<not> isWriteFile a) w w'"
    and "\<exists>a xs. newActions w w' = a # xs \<and> installAction a"
    using extractPortable_adds [of e u p w r w'] runInstaller_adds [of e u p w r w']
    by auto
qed

lemma onlyAdds_prefix: "onlyAdds P w w' \<Longrightarrow> prefix (trace w) (trace w')"
  by (simp add: onlyAdds_def)

lemma onlyAdds_all: "onlyAdds P w w' \<Longrightarrow> list_all P (newActions w w')"
  by (simp add: onlyAdds_def)

lemma newActions_prefix:
  "prefix (trace w) (trace w1) \<Longrightarrow> prefix (trace w1) (trace w2) \<Longrightarrow>
   newActions w w2 = newActions w w1 @ newActions w1 w2"
  by (auto simp: prefix_def newActions_def)

lemma downloadAndInstall_unfold:
  assumes "findAsset (IsPortable w (cfg u) \<or> Portable (opts u)) (goarch e) (Assets rel) = Inr asset"
    and "downloadFile e (BrowserDownloadURL asset) (filepathJoin [WorkDir (cfg u), Name asset]) w
           = (Inr (), w1)"
  shows "downloadAndInstall e u rel w =
     (case verifyThenInstall e u rel asset (filepathJoin [WorkDir (cfg u), Name asset]) w1 of
        (r, w2) \<Rightarrow> (r, snd (osRemove e (filepathJoin [WorkDir (cfg u), Name asset]) w2)))"
  using assms by (simp add: downloadAndInstall_def Let_def)

lemma verifyThenInstall_adds:
  assumes "verifyThenInstall e u rel asset p w = (r, w')"
  shows "onlyAdds (\<lambda>a. \<not> isWriteFile a) w w'"
proof (cases "findChecksumAsset (Assets rel)")
  case None
  with assms show ?thesis
    using installOrExtract_adds(1) [of e u asset p w r w'] by (simp add: verifyThenInstall_def)
next
  case (Some ca)
  obtain r1 w1 where v: "verifyChecksum e u p ca (Name asset) w = (r1, w1)"
    by (cases "verifyChecksum e u p ca (Name asset) w")
  have a1: "onlyAdds (\<lambda>a. \<not> isWriteFile a) w w1"
    by (rule onlyAdds_mono [OF verifyChecksum_adds [OF v]]) simp
  show ?thesis
  proof (cases r1)
    case (Inl err)
    with assms Some v a1 show ?thesis by (simp add: verifyThenInstall_def)
  next
    case (Inr ok)
    with assms Some v have "installOrExtract e u asset p w1 = (r, w')"
      by (simp add: verifyThenInstall_def)
    from installOrExtract_adds(1) [OF this] a1 show ?thesis by (blast intro: onlyAdds_trans)
  qed
qed

lemma downloadAndInstall_adds:
  assumes "downloadAndInstall e u rel w = (r, w')"
  shows "onlyAdds (\<lambda>a. \<not> isWriteFile a) w w'"
proof (cases "findAsset (IsPortable w (cfg u) \<or> Portable (opts u)) (goarch e) (Assets rel)")
  case (Inl err)
  with assms show ?thesis by (simp add: downloadAndInstall_def onlyAdds_iff)
next
  case (Inr asset)
  let ?p = "filepathJoin [WorkDir (cfg u), Name asset]"
  obtain r1 w1 where d: "downloadFile e (BrowserDownloadURL asset) ?p w = (r1, w1)"
    by (cases "downloadFile e (BrowserDownloadURL asset) ?p w")
  have a1: "onlyAdds (\<lambda>a. \<not> isWriteFile a) w w1"
    by (rule onlyAdds_mono [OF downloadFile_adds [OF d]]) auto
  show ?thesis
  proof (cases r1)
    case (Inl err)
    with assms Inr d a1 show ?thesis by (simp add: downloadAndInstall_def Let_def)
  next
    case Inr2: (Inr ok)
    obtain r2 w2 where v: "verifyThenInstall e u rel asset ?p w1 = (r2, w2)"
      by (cases "verifyThenInstall e u rel asset ?p w1")
    note a2 = verifyThenInstall_adds [OF v]
    obtain ok3 w3 where rm: "osRemove e ?p w2 = (ok3, w3)" by (cases "osRemove e ?p w2")
    have a3: "onlyAdds (\<lambda>a. \<not> isWriteFile a) w2 w3"
      using osRemove_adds [OF rm] by (simp add: onlyAdds_iff)
    from assms Inr d Inr2 v rm have "w' = w3" by (simp add: downloadAndInstall_def Let_def)
    with a1 a2 a3 show ?thesis by (blast intro: onlyAdds_trans)
  qed
qed

text \<open>The two halves of the property of \<open>downloadAndInstall\<close>: with a manifest in the
  release, and without.\<close>

lemma install_after_verification:
  assumes ca: "findChecksumAsset (Assets rel) = Some ca"
    and inst: "list_ex installAction (newActions w (snd (downloadAndInstall e u rel w)))"
  shows "\<exists>asset w1 w2.
           findAsset (IsPortable w (cfg u) \<or> Portable (opts u)) (goarch e) (Assets rel) = Inr asset
         \<and> downloadFile e (BrowserDownloadURL asset) (filepathJoin [WorkDir (cfg u), Name asset]) w
             = (Inr (), w1)
         \<and> verifyChecksum e u (filepathJoin [WorkDir (cfg u), Name asset]) ca (Name asset) w1
             = (Inr (), w2)
         \<and> list_all (\<lambda>a. \<not> installAction a) (newActions w w2)
         \<and> downloadAndInstall e u rel w =
             (case installOrExtract e u asset (filepathJoin [WorkDir (cfg u), Name asset]) w2 of
                (r, w3) \<Rightarrow> (r, snd (osRemove e (filepathJoin [WorkDir (cfg u), Name asset]) w3)))"
proof (cases "findAsset (IsPortable w (cfg u) \<or> Portable (opts u)) (goarch e) (Assets rel)")
  case (Inl err)
  with inst show ?thesis by (simp add: downloadAndInstall_def newActions_def)
next
  case (Inr asset)
  let ?p = "filepathJoin [WorkDir (cfg u), Name asset]"
  let ?N = "\<lambda>a. \<not> installAction a"
  obtain r1 w1 where d: "downloadFile e (BrowserDownloadURL asset) ?p w = (r1, w1)"
    by (cases "downloadFile e (BrowserDownloadURL asset) ?p w")
  have a1: "onlyAdds ?N w w1"
    by (rule onlyAdds_mono [OF downloadFile_adds [OF d]]) auto
  show ?thesis
  proof (cases r1)
    case (Inl err)
    with Inr d have "snd (downloadAndInstall e u rel w) = w1"
      by (simp add: downloadAndInstall_def Let_def)
    with inst a1 show ?thesis by (auto simp: onlyAdds_def list_all_iff list_ex_iff)
  next
    case Inr2: (Inr ok)
    obtain r2 w2 where v: "verifyChecksum e u ?p ca (Name asset) w1 = (r2, w2)"
      by (cases "verifyChecksum e u ?p ca (Name asset) w1")
    have a2: "onlyAdds ?N w1 w2"
      by (rule onlyAdds_mono [OF verifyChecksum_adds [OF v]]) simp
    have a12: "onlyAdds ?N w w2" using a1 a2 by (rule onlyAdds_trans)
    show ?thesis
    proof (cases r2)
      case (Inl err)
      obtain ok3 w3 where rm: "osRemove e ?p w2 = (ok3, w3)" by (cases "osRemove e ?p w2")
      have a3: "onlyAdds ?N w2 w3"
        using osRemove_adds [OF rm] by (simp add: onlyAdds_iff)
      from Inr d Inr2 v Inl rm ca have "snd (downloadAndInstall e u rel w) = w3"
        by (simp add: downloadAndInstall_def verifyThenInstall_def Let_def)
      moreover have "onlyAdds ?N w w3" using a12 a3 by (rule onlyAdds_trans)
      ultimately show ?thesis using inst by (auto simp: onlyAdds_def list_all_iff list_ex_iff)
    next
      case Inr3: (Inr ok')
      from Inr d Inr2 v Inr3 ca
      have "downloadAndInstall e u rel w =
             (case installOrExtract e u asset ?p w2 of
                (r, w3) \<Rightarrow> (r, snd (osRemove e ?p w3)))"
        by (simp add: downloadAndInstall_def verifyThenInstall_def Let_def)
      with Inr d Inr2 v Inr3 a12 show ?thesis by (auto simp: onlyAdds_def)
    qed
  qed
qed

lemma install_without_manifest:
  assumes ca: "findChecksumAsset (Assets rel) = None"
    and fa: "findAsset (IsPortable w (cfg u) \<or> Portable (opts u)) (goarch e) (Assets rel) = Inr asset"
    and d: "downloadFile e (BrowserDownloadURL asset) (filepathJoin [WorkDir (cfg u), Name asset]) w
             = (Inr (), w1)"
  shows "downloadAndInstall e u rel w =
           (case installOrExtract e u asset (filepathJoin [WorkDir (cfg u), Name asset]) w1 of
              (r, w3) \<Rightarrow> (r, snd (osRemove e (filepathJoin [WorkDir (cfg u), Name asset]) w3)))"
    and "list_ex installAction (newActions w (snd (downloadAndInstall e u rel w)))"
    and "list_all (\<lambda>a. \<not> installAction a) (newActions w w1)"
proof -
  let ?p = "filepathJoin [WorkDir (cfg u), Name asset]"
  show eq: "downloadAndInstall e u rel w =
           (case installOrExtract e u asset ?p w1 of (r, w3) \<Rightarrow> (r, snd (osRemove e ?p w3)))"
    using ca fa d by (simp add: downloadAndInstall_def verifyThenInstall_def Let_def)
  have a1: "onlyAdds (\<lambda>a. \<not> installAction a) w w1"
    by (rule onlyAdds_mono [OF downloadFile_adds [OF d]]) auto
  then show "list_all (\<lambda>a. \<not> installAction a) (newActions w w1)" by (simp add: onlyAdds_def)
  obtain r2 w2 where i: "installOrExtract e u asset ?p w1 = (r2, w2)"
    by (cases "installOrExtract e u asset ?p w1")
  from installOrExtract_adds [OF i] obtain a xs where
    n2: "newActions w1 w2 = a # xs" "installAction a" and p2: "prefix (trace w1) (trace w2)"
    by (auto simp: onlyAdds_def)
  obtain ok3 w3 where rm: "osRemove e ?p w2 = (ok3, w3)" by (cases "osRemove e ?p w2")
  have p3: "prefix (trace w2) (trace w3)" using osRemove_adds [OF rm] by simp
  have "snd (downloadAndInstall e u rel w) = w3" using eq i rm by simp
  moreover have "newActions w w3 = newActions w w1 @ newActions w1 w2 @ newActions w2 w3"
    using a1 p2 p3 by (auto simp: onlyAdds_def prefix_def newActions_def)
  ultimately show "list_ex installAction (newActions w (snd (downloadAndInstall e u rel w)))"
    using n2 by (simp add: list_ex_iff)
qed

section \<open>Facts about the checksum manifest\<close>

lemma fieldsFrom_nonempty: "[] \<notin> set (fieldsFrom cur s)"
  by (induction s arbitrary: cur) auto

lemma Fields_head_nonempty: "Fields s = h # rest \<Longrightarrow> h \<noteq> []"
  using fieldsFrom_nonempty [of "[]" s] by (auto simp: Fields_def)

lemma findExpectedHash_find_lines:
  "findExpectedHash ls fileName =
     (case List.find (recordMatches fileName)
        (List.map_filter
           (\<lambda>line. case Fields line of
                      hash # field # others \<Rightarrow> Some (hash, TrimPrefix field ''*'')
                    | _ \<Rightarrow> None) ls) of
        Some r \<Rightarrow> ToLower (fst r)
      | None \<Rightarrow> [])"
  by (induction ls) (auto simp: List.map_filter_simps recordMatches_def split: list.splits)

lemma findExpectedHash_find:
  "findExpectedHash (splitOn newline data) fileName =
     (case List.find (recordMatches fileName) (manifestRecords data) of
        Some r \<Rightarrow> ToLower (fst r)
      | None \<Rightarrow> [])"
  unfolding manifestRecords_def by (rule findExpectedHash_find_lines)

lemma manifestRecords_hash_nonempty: "r \<in> set (manifestRecords data) \<Longrightarrow> fst r \<noteq> []"
  by (auto simp: manifestRecords_def List.map_filter_def split: list.splits
      dest: Fields_head_nonempty)

lemma findExpectedHash_empty_iff:
  "(findExpectedHash (splitOn newline data) fileName = []) =
   (List.find (recordMatches fileName) (manifestRecords data) = None)"
proof (cases "List.find (recordMatches fileName) (manifestRecords data)")
  case None
  then show ?thesis unfolding findExpectedHash_find by simp
next
  case (Some r)
  then have "r \<in> set (manifestRecords data)"
    by (auto simp: find_Some_iff)
  then have "ToLower (fst r) \<noteq> []"
    using manifestRecords_hash_nonempty [of r data] by (simp add: ToLower_def)
  with Some show ?thesis unfolding findExpectedHash_find by simp
qed

lemma verifyAgainst_not_found:
  assumes "osReadFile e checksumPath w = (Inr data, w1)"
    and "List.find (recordMatches fileName) (manifestRecords data) = None"
  shows "verifyAgainst e filePath checksumPath fileName w = (Inl (ChecksumNotFound fileName), w1)"
  using assms by (simp add: verifyAgainst_def findExpectedHash_empty_iff)

lemma verifyChecksum_not_found:
  assumes "downloadFile e (BrowserDownloadURL ca) (filepathJoin [WorkDir (cfg u), Name ca]) w
             = (Inr (), w1)"
    and "osReadFile e (filepathJoin [WorkDir (cfg u), Name ca]) w1 = (Inr data, w2)"
    and "List.find (recordMatches fileName) (manifestRecords data) = None"
  shows "fst (verifyChecksum e u filePath ca fileName w) = Inl (ChecksumNotFound fileName)"
  using assms by (simp add: verifyChecksum_def verifyAgainst_not_found)

lemma downloadAndInstall_verify_error:
  assumes fa: "findAsset (IsPortable w (cfg u) \<or> Portable (opts u)) (goarch e) (Assets rel) = Inr asset"
    and ca: "findChecksumAsset (Assets rel) = Some ca"
    and d: "downloadFile e (BrowserDownloadURL asset) (filepathJoin [WorkDir (cfg u), Name asset]) w
             = (Inr (), w1)"
    and v: "fst (verifyChecksum e u (filepathJoin [WorkDir (cfg u), Name asset]) ca (Name asset) w1)
             = Inl err"
  shows "fst (downloadAndInstall e u rel w) = Inl (Wrapped ''checksum verification failed'' err)"
    and "list_all (\<lambda>a. \<not> installAction a) (newActions w (snd (downloadAndInstall e u rel w)))"
proof -
  let ?p = "filepathJoin [WorkDir (cfg u), Name asset]"
  obtain w2 where v': "verifyChecksum e u ?p ca (Name asset) w1 = (Inl err, w2)"
    using v by (cases "verifyChecksum e u ?p ca (Name asset) w1") simp
  obtain ok3 w3 where rm: "osRemove e ?p w2 = (ok3, w3)" by (cases "osRemove e ?p w2")
  have eq: "downloadAndInstall e u rel w = (Inl (Wrapped ''checksum verification failed'' err), w3)"
    using fa ca d v' rm by (simp add: downloadAndInstall_def verifyThenInstall_def Let_def)
  then show "fst (downloadAndInstall e u rel w) = Inl (Wrapped ''checksum verification failed'' err)"
    by simp
  let ?N = "\<lambda>a. \<not> installAction a"
  have a1: "onlyAdds ?N w w1"
    by (rule onlyAdds_mono [OF downloadFile_adds [OF d]]) auto
  have a2: "onlyAdds ?N w1 w2"
    by (rule onlyAdds_mono [OF verifyChecksum_adds [OF v']]) simp
  have a3: "onlyAdds ?N w2 w3"
    using osRemove_adds [OF rm] by (simp add: onlyAdds_iff)
  have "onlyAdds ?N w w3" using a1 a2 a3 by (blast intro: onlyAdds_trans)
  then show "list_all ?N (newActions w (snd (downloadAndInstall e u rel w)))"
    using eq by (simp add: onlyAdds_def)
qed

lemma fst_eq_pair: "fst x = a \<Longrightarrow> x = (a, snd x)"
  by (cases x) simp

section \<open>Evaluation of the definitions\<close>

text \<open>The defining equations, collected for the evaluation of the functions on the
  examples.\<close>

lemmas string_defs = HasPrefix_def HasSuffix_def TrimPrefix_def ToLower_def toLowerByte_def
  EqualFold_def isSpace_def TrimSpace_def Fields_def
lemmas path_defs = PathSeparator_def isRooted_def pathElems_def Clean_def filepathJoin_def Dir_def
lemmas example_defs = exampleRelease_def exampleEnv_def exampleUpdater_def exampleWorld_def
  exampleReleaseBare_def exampleEnvOtherManifest_def
lemmas install_defs = downloadAndInstall_def verifyThenInstall_def verifyChecksum_def
  verifyAgainst_def downloadFile_def installOrExtract_def runInstaller_def attempt_def
  osReadFile_def osRemove_def IsPortable_def statOk_def GetBrowserPath_def BrowserName_def
  findAsset_def assetSuffixes_def

section \<open>Properties of the version comparator\<close>

lemma TrimPrefix_v: "TrimPrefix s ''v'' = strip_v s"
  by (cases s) (auto simp: TrimPrefix_def HasPrefix_def)

text \<open>
  C2. After stripping a single leading \<open>v\<close> from each argument: an empty or \<open>0.0.0\<close>
  current version gives \<open>True\<close>; otherwise the result is \<open>True\<close> exactly when the two
  normalised strings differ; in particular \<open>isNewerVersion 2.0.0 1.9.9\<close> is \<open>True\<close>. The
  function is total: it is a HOL function built from total operations only, and the Go
  code has no panic or error path.
\<close>

theorem isNewerVersion_contract:
  "(strip_v current = [] \<or> strip_v current = ''0.0.0'' \<longrightarrow> isNewerVersion current latest)
   \<and> (strip_v current \<noteq> [] \<and> strip_v current \<noteq> ''0.0.0'' \<longrightarrow>
        isNewerVersion current latest = (strip_v latest \<noteq> strip_v current))
   \<and> isNewerVersion ''2.0.0'' ''1.9.9''"
  by (simp add: isNewerVersion_def TrimPrefix_v Let_def)

theorem isNewerVersion_contract_witness:
  "strip_v ''v0.0.0'' = ''0.0.0'' \<and> isNewerVersion ''v0.0.0'' ''v0.0.0''
   \<and> strip_v ''v1.2.3'' = ''1.2.3'' \<and> isNewerVersion ''v1.2.3'' ''1.2.4''
   \<and> \<not> isNewerVersion ''v1.2.3'' ''1.2.3''
   \<and> isNewerVersion ''2.0.0'' ''1.9.9''"
  using isNewerVersion_contract [of "''v0.0.0''" "''v0.0.0''"]
    isNewerVersion_contract [of "''v1.2.3''" "''1.2.4''"]
    isNewerVersion_contract [of "''v1.2.3''" "''1.2.3''"]
  by simp

text \<open>
  C7. The claim has \<open>isNewerVersion 1.1.0 1.0.1\<close> false, as the table of
  \<open>TestIsNewerVersion\<close> does (\<open>{"1.1.0", "1.0.1", false}, // Current is newer\<close>). The
  code compares for inequality only and answers \<open>True\<close>. The second half of the claim
  holds.
\<close>

theorem isNewerVersion_older_latest:
  "isNewerVersion ''1.1.0'' ''1.0.1'' = True \<and> isNewerVersion ''1.0.1'' ''1.1.0'' = True"
  by (simp add: isNewerVersion_def TrimPrefix_def HasPrefix_def)

text \<open>
  C8. As stated (every non-empty current version other than \<open>0.0.0\<close>) the claim fails
  at the bare prefix \<open>v\<close>, which is non-empty and not \<open>0.0.0\<close> but normalises to the
  empty string.
\<close>

theorem isNewerVersion_same_counterexample:
  "''v'' \<noteq> [] \<and> ''v'' \<noteq> ''0.0.0'' \<and> isNewerVersion ''v'' ''v''"
  by (simp add: isNewerVersion_def TrimPrefix_def HasPrefix_def)

text \<open>
  C8, amended. For every current version whose normalised form (one leading \<open>v\<close>
  stripped) is non-empty and not \<open>0.0.0\<close>, \<open>isNewerVersion current current\<close> is false.
\<close>

theorem isNewerVersion_same:
  "strip_v current \<noteq> [] \<Longrightarrow> strip_v current \<noteq> ''0.0.0'' \<Longrightarrow>
   \<not> isNewerVersion current current"
  by (simp add: isNewerVersion_def TrimPrefix_v Let_def)

theorem isNewerVersion_same_witness:
  "strip_v ''v1.0.0'' \<noteq> [] \<and> strip_v ''v1.0.0'' \<noteq> ''0.0.0''
   \<and> \<not> isNewerVersion ''v1.0.0'' ''v1.0.0''"
  using isNewerVersion_same [of "''v1.0.0''"] by simp

text \<open>
  C10. The sentinel test comes after the prefix is stripped: with current version
  \<open>v0.0.0\<close> or \<open>v\<close> the result is \<open>True\<close> for every latest version, the current one
  included.
\<close>

theorem isNewerVersion_prefixed_sentinel:
  "isNewerVersion ''v0.0.0'' latest \<and> isNewerVersion ''v'' latest
   \<and> isNewerVersion ''v0.0.0'' ''v0.0.0'' \<and> isNewerVersion ''v'' ''v''"
  by (simp add: isNewerVersion_def TrimPrefix_def HasPrefix_def)

section \<open>Properties of the asset resolver\<close>

text \<open>
  C4. The claim gives priority to the order of the fragments, as the comments of
  \<open>findAsset\<close> do (the fragment for the platform and mode first, then
  \<open>// Also try alternative naming patterns\<close>, then
  \<open>// If no specific match, look for any Windows executable or zip\<close>). The code loops
  over the assets first and over the fragments inside: for a portable installation on
  a 64-bit build and a release that lists the installer before the portable archive,
  the archive matches the primary fragment \<open>windows-x86_64-portable.zip\<close>, the installer
  matches only the third fragment \<open>win64-setup.exe\<close>, and \<open>findAsset\<close> returns the
  installer.
\<close>

theorem findAsset_lower_priority_first:
  "findAsset True ''amd64''
     [\<lparr>Name = ''noraneko-win64-setup.exe'', BrowserDownloadURL = ''u1'', Size = 1\<rparr>,
      \<lparr>Name = ''noraneko-2.0.0-windows-x86_64-portable.zip'', BrowserDownloadURL = ''u2'',
       Size = 2\<rparr>]
   = Inr \<lparr>Name = ''noraneko-win64-setup.exe'', BrowserDownloadURL = ''u1'', Size = 1\<rparr>
   \<and> assetSuffixes True ''amd64'' ! 0 = ''windows-x86_64-portable.zip''
   \<and> assetSuffixes True ''amd64'' ! 2 = ''win64-setup.exe''
   \<and> matchesFragment
        \<lparr>Name = ''noraneko-2.0.0-windows-x86_64-portable.zip'', BrowserDownloadURL = ''u2'',
         Size = 2\<rparr> ''windows-x86_64-portable.zip''
   \<and> \<not> matchesFragment
        \<lparr>Name = ''noraneko-win64-setup.exe'', BrowserDownloadURL = ''u1'', Size = 1\<rparr>
        ''windows-x86_64-portable.zip''
   \<and> matchesFragment
        \<lparr>Name = ''noraneko-win64-setup.exe'', BrowserDownloadURL = ''u1'', Size = 1\<rparr>
        ''win64-setup.exe''"
  by (simp add: findAsset_def assetSuffixes_def matchesFragment_def ToLower_def toLowerByte_def
      HasPrefix_def HasSuffix_def)

section \<open>Properties of the install transition\<close>

text \<open>
  C1. For every release whose asset names are ASCII texts, and every environment,
  updater and world. With a checksum manifest in the release (whose text is ASCII): if
  \<open>downloadAndInstall\<close> attempts any action of an install strategy, then the asset was
  found and downloaded, \<open>verifyChecksum\<close> on the downloaded file returned without an
  error, no install action was attempted up to that moment, and the rest of the run is
  the install strategy started from there (and the deferred removal of the download).
  Without a manifest in the release: once the asset is found and downloaded, no install
  action has been attempted, the install strategy starts at once, with no verification
  in between, and it does attempt an install action.
\<close>

theorem install_only_after_verification:
  assumes "list_all (\<lambda>a. isASCII (Name a)) (Assets rel)"
  shows
   "(\<forall>ca. findChecksumAsset (Assets rel) = Some ca \<longrightarrow>
          (\<forall>t. isASCII (snd (httpResponse e t (BrowserDownloadURL ca)))) \<longrightarrow>
          list_ex installAction (newActions w (snd (downloadAndInstall e u rel w))) \<longrightarrow>
          (\<exists>asset w1 w2.
              findAsset (IsPortable w (cfg u) \<or> Portable (opts u)) (goarch e) (Assets rel)
                = Inr asset
            \<and> downloadFile e (BrowserDownloadURL asset)
                 (filepathJoin [WorkDir (cfg u), Name asset]) w = (Inr (), w1)
            \<and> verifyChecksum e u (filepathJoin [WorkDir (cfg u), Name asset]) ca (Name asset) w1
                = (Inr (), w2)
            \<and> list_all (\<lambda>a. \<not> installAction a) (newActions w w2)
            \<and> downloadAndInstall e u rel w =
                (case installOrExtract e u asset (filepathJoin [WorkDir (cfg u), Name asset]) w2 of
                   (r, w3) \<Rightarrow>
                     (r, snd (osRemove e (filepathJoin [WorkDir (cfg u), Name asset]) w3)))))
    \<and> (findChecksumAsset (Assets rel) = None \<longrightarrow>
        findAsset (IsPortable w (cfg u) \<or> Portable (opts u)) (goarch e) (Assets rel) = Inr asset \<longrightarrow>
        downloadFile e (BrowserDownloadURL asset) (filepathJoin [WorkDir (cfg u), Name asset]) w
          = (Inr (), w1) \<longrightarrow>
          list_all (\<lambda>a. \<not> installAction a) (newActions w w1)
        \<and> downloadAndInstall e u rel w =
            (case installOrExtract e u asset (filepathJoin [WorkDir (cfg u), Name asset]) w1 of
               (r, w3) \<Rightarrow> (r, snd (osRemove e (filepathJoin [WorkDir (cfg u), Name asset]) w3)))
        \<and> list_ex installAction (newActions w (snd (downloadAndInstall e u rel w))))"
  using install_after_verification [of rel _ w e u]
    install_without_manifest [of rel w u e asset w1]
  by blast

text \<open>
  The property at the example: with the manifest, the actions of the run show the
  verification (reading the manifest, hashing the download) before the installer is
  run; without the manifest the installer is run right after the download.
\<close>

theorem install_only_after_verification_witness:
  "list_all (\<lambda>a. isASCII (Name a)) (Assets exampleRelease)
   \<and> findChecksumAsset (Assets exampleRelease) = Some (Assets exampleRelease ! 1)
   \<and> (\<forall>t. isASCII (snd (httpResponse exampleEnv t (BrowserDownloadURL (Assets exampleRelease ! 1)))))
   \<and> newActions exampleWorld
        (snd (downloadAndInstall exampleEnv exampleUpdater exampleRelease exampleWorld))
      = [HttpGet ''https://dl/setup'', OsCreate ''/t/noraneko-win64-setup.exe'',
         IoCopy ''/t/noraneko-win64-setup.exe'', HttpGet ''https://dl/sums'',
         OsCreate ''/t/sha256sums.txt'', IoCopy ''/t/sha256sums.txt'',
         OsReadFile ''/t/sha256sums.txt'', OsOpen ''/t/noraneko-win64-setup.exe'',
         HashCopy ''/t/noraneko-win64-setup.exe'', OsRemove ''/t/sha256sums.txt'',
         ExecRun ''/t/noraneko-win64-setup.exe'' [''/S'', ''/D=/b''],
         OsRemove ''/t/noraneko-win64-setup.exe'']
   \<and> (\<exists>asset w1 w2.
          findAsset (IsPortable exampleWorld (cfg exampleUpdater) \<or> Portable (opts exampleUpdater))
            (goarch exampleEnv) (Assets exampleRelease) = Inr asset
        \<and> downloadFile exampleEnv (BrowserDownloadURL asset)
            (filepathJoin [WorkDir (cfg exampleUpdater), Name asset]) exampleWorld = (Inr (), w1)
        \<and> verifyChecksum exampleEnv exampleUpdater
            (filepathJoin [WorkDir (cfg exampleUpdater), Name asset])
            (Assets exampleRelease ! 1) (Name asset) w1 = (Inr (), w2)
        \<and> list_all (\<lambda>a. \<not> installAction a) (newActions exampleWorld w2)
        \<and> downloadAndInstall exampleEnv exampleUpdater exampleRelease exampleWorld =
            (case installOrExtract exampleEnv exampleUpdater asset
                    (filepathJoin [WorkDir (cfg exampleUpdater), Name asset]) w2 of
               (r, w3) \<Rightarrow>
                 (r, snd (osRemove exampleEnv
                            (filepathJoin [WorkDir (cfg exampleUpdater), Name asset]) w3))))
   \<and> list_all (\<lambda>a. isASCII (Name a)) (Assets exampleReleaseBare)
   \<and> findChecksumAsset (Assets exampleReleaseBare) = None
   \<and> findAsset (IsPortable exampleWorld (cfg exampleUpdater) \<or> Portable (opts exampleUpdater))
        (goarch exampleEnv) (Assets exampleReleaseBare) = Inr (hd (Assets exampleRelease))
   \<and> fst (downloadFile exampleEnv ''https://dl/setup'' ''/t/noraneko-win64-setup.exe''
        exampleWorld) = Inr ()
   \<and> list_ex installAction (newActions exampleWorld
        (snd (downloadAndInstall exampleEnv exampleUpdater exampleReleaseBare exampleWorld)))"
proof -
  let ?ca = "Assets exampleRelease ! 1"
  let ?asset = "hd (Assets exampleRelease)"
  have h1: "list_all (\<lambda>a. isASCII (Name a)) (Assets exampleRelease)"
    and h1': "list_all (\<lambda>a. isASCII (Name a)) (Assets exampleReleaseBare)"
    by (simp_all add: example_defs isASCII_def)
  have h2: "findChecksumAsset (Assets exampleRelease) = Some ?ca"
    and h2': "findChecksumAsset (Assets exampleReleaseBare) = None"
    by (simp_all add: example_defs string_defs)
  have h3: "\<forall>t. isASCII (snd (httpResponse exampleEnv t (BrowserDownloadURL ?ca)))"
    by (simp add: example_defs isASCII_def)
  have t: "newActions exampleWorld
        (snd (downloadAndInstall exampleEnv exampleUpdater exampleRelease exampleWorld))
      = [HttpGet ''https://dl/setup'', OsCreate ''/t/noraneko-win64-setup.exe'',
         IoCopy ''/t/noraneko-win64-setup.exe'', HttpGet ''https://dl/sums'',
         OsCreate ''/t/sha256sums.txt'', IoCopy ''/t/sha256sums.txt'',
         OsReadFile ''/t/sha256sums.txt'', OsOpen ''/t/noraneko-win64-setup.exe'',
         HashCopy ''/t/noraneko-win64-setup.exe'', OsRemove ''/t/sha256sums.txt'',
         ExecRun ''/t/noraneko-win64-setup.exe'' [''/S'', ''/D=/b''],
         OsRemove ''/t/noraneko-win64-setup.exe'']"
    by (simp add: newActions_def install_defs example_defs string_defs path_defs Let_def)
  have h4: "list_ex installAction (newActions exampleWorld
        (snd (downloadAndInstall exampleEnv exampleUpdater exampleRelease exampleWorld)))"
    unfolding t by simp
  have fa: "findAsset (IsPortable exampleWorld (cfg exampleUpdater) \<or> Portable (opts exampleUpdater))
        (goarch exampleEnv) (Assets exampleReleaseBare) = Inr ?asset"
    by (simp add: install_defs example_defs string_defs path_defs)
  have p: "filepathJoin [WorkDir (cfg exampleUpdater), Name ?asset] = ''/t/noraneko-win64-setup.exe''"
    and url: "BrowserDownloadURL ?asset = ''https://dl/setup''"
    by (simp_all add: example_defs string_defs path_defs)
  have dl: "fst (downloadFile exampleEnv ''https://dl/setup'' ''/t/noraneko-win64-setup.exe''
        exampleWorld) = Inr ()"
    by (simp add: downloadFile_def attempt_def example_defs Let_def)
  then have dl': "downloadFile exampleEnv (BrowserDownloadURL ?asset)
        (filepathJoin [WorkDir (cfg exampleUpdater), Name ?asset]) exampleWorld
      = (Inr (), snd (downloadFile exampleEnv ''https://dl/setup''
           ''/t/noraneko-win64-setup.exe'' exampleWorld))"
    unfolding p url by (metis prod.collapse)
  from install_only_after_verification [OF h1, THEN conjunct1, rule_format, OF h2 h3 [rule_format] h4]
  have c1: "\<exists>asset w1 w2.
          findAsset (IsPortable exampleWorld (cfg exampleUpdater) \<or> Portable (opts exampleUpdater))
            (goarch exampleEnv) (Assets exampleRelease) = Inr asset
        \<and> downloadFile exampleEnv (BrowserDownloadURL asset)
            (filepathJoin [WorkDir (cfg exampleUpdater), Name asset]) exampleWorld = (Inr (), w1)
        \<and> verifyChecksum exampleEnv exampleUpdater
            (filepathJoin [WorkDir (cfg exampleUpdater), Name asset])
            ?ca (Name asset) w1 = (Inr (), w2)
        \<and> list_all (\<lambda>a. \<not> installAction a) (newActions exampleWorld w2)
        \<and> downloadAndInstall exampleEnv exampleUpdater exampleRelease exampleWorld =
            (case installOrExtract exampleEnv exampleUpdater asset
                    (filepathJoin [WorkDir (cfg exampleUpdater), Name asset]) w2 of
               (r, w3) \<Rightarrow>
                 (r, snd (osRemove exampleEnv
                            (filepathJoin [WorkDir (cfg exampleUpdater), Name asset]) w3)))" .
  from install_only_after_verification [OF h1', THEN conjunct2, rule_format, OF h2' fa dl']
  have c2: "list_ex installAction (newActions exampleWorld
        (snd (downloadAndInstall exampleEnv exampleUpdater exampleReleaseBare exampleWorld)))"
    by blast
  from h1 h1' h2 h2' h3 t fa dl c1 c2 show ?thesis by (intro conjI)
qed

section \<open>Properties of the checksum verification\<close>

text \<open>
  C5. As stated (a match of the name that ignores case, exact or by suffix) the claim
  fails: the record \<open>dist/APP.ZIP\<close> ends with the target \<open>app.zip\<close> when case is
  ignored, but the suffix test of the code compares bytes, no record is matched and the
  verification ends with the error for a missing entry.
\<close>

theorem verifyChecksum_case_counterexample:
  "isASCII ''0a1b  dist/APP.ZIP'' \<and> isASCII ''app.zip''
   \<and> manifestRecords ''0a1b  dist/APP.ZIP'' = [(''0a1b'', ''dist/APP.ZIP'')]
   \<and> HasSuffix (ToLower ''dist/APP.ZIP'') (ToLower ''app.zip'')
   \<and> findExpectedHash (splitOn newline ''0a1b  dist/APP.ZIP'') ''app.zip'' = []
   \<and> fst (verifyAgainst exampleEnv ''/t/app.zip'' ''/t/sums'' ''app.zip''
        \<lparr>files = [''/t/sums'' \<mapsto> ''0a1b  dist/APP.ZIP'', ''/t/app.zip'' \<mapsto> ''data''],
         dirs = {}, trace = []\<rparr>)
      = Inl (ChecksumNotFound ''app.zip'')"
  by (simp add: isASCII_def manifestRecords_def List.map_filter_def verifyAgainst_def
      osReadFile_def attempt_def exampleEnv_def string_defs)

text \<open>
  C5, amended. For every manifest text and target file name (ASCII texts),
  \<open>verifyChecksum\<close> takes the first record of the manifest whose file name, after one
  leading \<open>*\<close> is stripped, equals the target name up to the case of letters or ends
  with the target name byte for byte (the suffix test does not ignore case), and
  expects the lowercased hash of that record. If no record matches, the verification
  returns the error for a missing entry; \<open>downloadAndInstall\<close> returns it wrapped and
  attempts no action of an install strategy: the case is not treated as that of a
  release without a manifest.
\<close>

theorem verifyChecksum_first_record:
  assumes "isASCII data" and "isASCII fileName"
  shows
   "findExpectedHash (splitOn newline data) fileName =
      (case List.find (recordMatches fileName) (manifestRecords data) of
         Some r \<Rightarrow> ToLower (fst r)
       | None \<Rightarrow> [])
    \<and> (List.find (recordMatches fileName) (manifestRecords data) = None \<longrightarrow>
         (osReadFile e checksumPath w = (Inr data, w1) \<longrightarrow>
            verifyAgainst e filePath checksumPath fileName w
              = (Inl (ChecksumNotFound fileName), w1))
       \<and> (findAsset (IsPortable w (cfg u) \<or> Portable (opts u)) (goarch e) (Assets rel) = Inr asset
            \<longrightarrow> Name asset = fileName
            \<longrightarrow> findChecksumAsset (Assets rel) = Some ca
            \<longrightarrow> downloadFile e (BrowserDownloadURL asset)
                  (filepathJoin [WorkDir (cfg u), Name asset]) w = (Inr (), w2)
            \<longrightarrow> downloadFile e (BrowserDownloadURL ca)
                  (filepathJoin [WorkDir (cfg u), Name ca]) w2 = (Inr (), w3)
            \<longrightarrow> osReadFile e (filepathJoin [WorkDir (cfg u), Name ca]) w3 = (Inr data, w4)
            \<longrightarrow> fst (verifyChecksum e u (filepathJoin [WorkDir (cfg u), Name asset]) ca
                       fileName w2) = Inl (ChecksumNotFound fileName)
               \<and> fst (downloadAndInstall e u rel w)
                   = Inl (Wrapped ''checksum verification failed'' (ChecksumNotFound fileName))
               \<and> list_all (\<lambda>a. \<not> installAction a)
                   (newActions w (snd (downloadAndInstall e u rel w)))))"
proof (intro conjI impI)
  show "findExpectedHash (splitOn newline data) fileName =
      (case List.find (recordMatches fileName) (manifestRecords data) of
         Some r \<Rightarrow> ToLower (fst r)
       | None \<Rightarrow> [])"
    by (rule findExpectedHash_find)
next
  assume "List.find (recordMatches fileName) (manifestRecords data) = None"
    and "osReadFile e checksumPath w = (Inr data, w1)"
  then show "verifyAgainst e filePath checksumPath fileName w
              = (Inl (ChecksumNotFound fileName), w1)"
    by (simp add: verifyAgainst_not_found)
next
  assume n: "List.find (recordMatches fileName) (manifestRecords data) = None"
    and fa: "findAsset (IsPortable w (cfg u) \<or> Portable (opts u)) (goarch e) (Assets rel) = Inr asset"
    and nm: "Name asset = fileName"
    and ca: "findChecksumAsset (Assets rel) = Some ca"
    and d: "downloadFile e (BrowserDownloadURL asset)
                  (filepathJoin [WorkDir (cfg u), Name asset]) w = (Inr (), w2)"
    and dm: "downloadFile e (BrowserDownloadURL ca)
                  (filepathJoin [WorkDir (cfg u), Name ca]) w2 = (Inr (), w3)"
    and rd: "osReadFile e (filepathJoin [WorkDir (cfg u), Name ca]) w3 = (Inr data, w4)"
  show v: "fst (verifyChecksum e u (filepathJoin [WorkDir (cfg u), Name asset]) ca
                       fileName w2) = Inl (ChecksumNotFound fileName)"
    by (rule verifyChecksum_not_found [OF dm rd n])
  from v nm have v': "fst (verifyChecksum e u (filepathJoin [WorkDir (cfg u), Name asset]) ca
                       (Name asset) w2) = Inl (ChecksumNotFound fileName)"
    by simp
  show "fst (downloadAndInstall e u rel w)
          = Inl (Wrapped ''checksum verification failed'' (ChecksumNotFound fileName))"
    by (rule downloadAndInstall_verify_error(1) [OF fa ca d v'])
  show "list_all (\<lambda>a. \<not> installAction a) (newActions w (snd (downloadAndInstall e u rel w)))"
    by (rule downloadAndInstall_verify_error(2) [OF fa ca d v'])
qed

text \<open>
  The property at the example whose manifest names another file, and at a manifest with
  two records that match, of which the first gives the hash.
\<close>

theorem verifyChecksum_first_record_witness:
  "isASCII ''0A1B  other.exe'' \<and> isASCII ''noraneko-win64-setup.exe''
   \<and> List.find (recordMatches ''noraneko-win64-setup.exe'') (manifestRecords ''0A1B  other.exe'')
       = None
   \<and> findAsset (IsPortable exampleWorld (cfg exampleUpdater) \<or> Portable (opts exampleUpdater))
        (goarch exampleEnvOtherManifest) (Assets exampleRelease) = Inr (hd (Assets exampleRelease))
   \<and> findChecksumAsset (Assets exampleRelease) = Some (Assets exampleRelease ! 1)
   \<and> fst (downloadFile exampleEnvOtherManifest ''https://dl/setup''
        ''/t/noraneko-win64-setup.exe'' exampleWorld) = Inr ()
   \<and> fst (downloadFile exampleEnvOtherManifest ''https://dl/sums'' ''/t/sha256sums.txt''
        (snd (downloadFile exampleEnvOtherManifest ''https://dl/setup''
           ''/t/noraneko-win64-setup.exe'' exampleWorld))) = Inr ()
   \<and> fst (osReadFile exampleEnvOtherManifest ''/t/sha256sums.txt''
        (snd (downloadFile exampleEnvOtherManifest ''https://dl/sums'' ''/t/sha256sums.txt''
          (snd (downloadFile exampleEnvOtherManifest ''https://dl/setup''
             ''/t/noraneko-win64-setup.exe'' exampleWorld))))) = Inr ''0A1B  other.exe''
   \<and> fst (downloadAndInstall exampleEnvOtherManifest exampleUpdater exampleRelease exampleWorld)
       = Inl (Wrapped ''checksum verification failed''
               (ChecksumNotFound ''noraneko-win64-setup.exe''))
   \<and> list_all (\<lambda>a. \<not> installAction a)
        (newActions exampleWorld
          (snd (downloadAndInstall exampleEnvOtherManifest exampleUpdater exampleRelease
                  exampleWorld)))
   \<and> isASCII ''AA  x.exe'' \<and> isASCII ''x.exe''
   \<and> findExpectedHash (splitOn newline (''AA  x.exe'' @ [newline] @ ''BB  dir/x.exe'')) ''x.exe''
       = ''aa''"
proof -
  let ?e = exampleEnvOtherManifest
  let ?asset = "hd (Assets exampleRelease)"
  let ?ca = "Assets exampleRelease ! 1"
  let ?data = "''0A1B  other.exe''"
  let ?fn = "''noraneko-win64-setup.exe''"
  let ?w2 = "snd (downloadFile ?e ''https://dl/setup'' ''/t/noraneko-win64-setup.exe'' exampleWorld)"
  let ?w3 = "snd (downloadFile ?e ''https://dl/sums'' ''/t/sha256sums.txt'' ?w2)"
  let ?w4 = "snd (osReadFile ?e ''/t/sha256sums.txt'' ?w3)"
  have a1: "isASCII ?data" and a2: "isASCII ?fn"
    and a3: "isASCII (''AA  x.exe'' @ [newline] @ ''BB  dir/x.exe'')" and a4: "isASCII ''x.exe''"
    and a5: "isASCII ''AA  x.exe''"
    by (simp_all add: isASCII_def)
  have n: "List.find (recordMatches ?fn) (manifestRecords ?data) = None"
    by (simp add: manifestRecords_def List.map_filter_def recordMatches_def string_defs)
  have fa: "findAsset (IsPortable exampleWorld (cfg exampleUpdater) \<or> Portable (opts exampleUpdater))
        (goarch ?e) (Assets exampleRelease) = Inr ?asset"
    by (simp add: install_defs example_defs string_defs path_defs)
  have ca: "findChecksumAsset (Assets exampleRelease) = Some ?ca"
    by (simp add: example_defs string_defs)
  have p: "filepathJoin [WorkDir (cfg exampleUpdater), Name ?asset] = ''/t/noraneko-win64-setup.exe''"
    "filepathJoin [WorkDir (cfg exampleUpdater), Name ?ca] = ''/t/sha256sums.txt''"
    "BrowserDownloadURL ?asset = ''https://dl/setup''" "BrowserDownloadURL ?ca = ''https://dl/sums''"
    "Name ?asset = ?fn"
    by (simp_all add: example_defs string_defs path_defs)
  have d: "fst (downloadFile ?e ''https://dl/setup'' ''/t/noraneko-win64-setup.exe'' exampleWorld)
            = Inr ()"
    by (simp add: downloadFile_def attempt_def example_defs Let_def)
  have dm: "fst (downloadFile ?e ''https://dl/sums'' ''/t/sha256sums.txt'' ?w2) = Inr ()"
    by (simp add: downloadFile_def attempt_def example_defs Let_def)
  have rd: "fst (osReadFile ?e ''/t/sha256sums.txt'' ?w3) = Inr ?data"
    by (simp add: osReadFile_def downloadFile_def attempt_def example_defs Let_def)
  have d': "downloadFile ?e (BrowserDownloadURL ?asset)
              (filepathJoin [WorkDir (cfg exampleUpdater), Name ?asset]) exampleWorld = (Inr (), ?w2)"
    unfolding p(1-4) using d by (rule fst_eq_pair)
  have dm': "downloadFile ?e (BrowserDownloadURL ?ca)
              (filepathJoin [WorkDir (cfg exampleUpdater), Name ?ca]) ?w2 = (Inr (), ?w3)"
    unfolding p(1-4) using dm by (rule fst_eq_pair)
  have rd': "osReadFile ?e (filepathJoin [WorkDir (cfg exampleUpdater), Name ?ca]) ?w3
              = (Inr ?data, ?w4)"
    unfolding p(1-4) using rd by (rule fst_eq_pair)
  note r = verifyChecksum_first_record [OF a1 a2, THEN conjunct2, rule_format, THEN conjunct2,
      rule_format, OF n fa p(5) ca d' dm' rd']
  have c: "fst (downloadAndInstall ?e exampleUpdater exampleRelease exampleWorld)
             = Inl (Wrapped ''checksum verification failed'' (ChecksumNotFound ?fn))"
    by (rule r [THEN conjunct2, THEN conjunct1])
  have c': "list_all (\<lambda>a. \<not> installAction a)
        (newActions exampleWorld (snd (downloadAndInstall ?e exampleUpdater exampleRelease
           exampleWorld)))"
    by (rule r [THEN conjunct2, THEN conjunct2])
  have "findExpectedHash (splitOn newline (''AA  x.exe'' @ [newline] @ ''BB  dir/x.exe'')) ''x.exe''
       = (case List.find (recordMatches ''x.exe'')
                 (manifestRecords (''AA  x.exe'' @ [newline] @ ''BB  dir/x.exe'')) of
            Some r \<Rightarrow> ToLower (fst r) | None \<Rightarrow> [])"
    by (rule verifyChecksum_first_record [OF a3 a4, THEN conjunct1])
  also have "\<dots> = ''aa''"
    by (simp add: manifestRecords_def List.map_filter_def recordMatches_def string_defs)
  finally have f: "findExpectedHash
      (splitOn newline (''AA  x.exe'' @ [newline] @ ''BB  dir/x.exe'')) ''x.exe'' = ''aa''" .
  from a1 a2 n fa ca d dm rd c c' a5 a4 f show ?thesis by (intro conjI)
qed


end
